theory Spec2Isabelle
  imports Main
begin

section \<open>Values, errors and Python string primitives\<close>

text \<open>
  The filter is a Python program working on pandoc's JSON tree with module-level
  globals. Exceptions are values of \<open>error\<close>; a function that can raise returns
  \<open>error + 'a\<close> with \<open>Inl\<close> for the exception. Assertions are taken as enabled.
\<close>

datatype error = IndexError | KeyError | TypeError | AssertionError | ValueError

text \<open>
  Attribute values and the section tracker: the key/value attributes of an image hold
  strings, and \<open>secno\<close> is whatever the upstream section pass inserted; \<open>cursec\<close>
  starts as Python's \<open>None\<close>.
\<close>

datatype pyval = PNone | PInt int | PStr string

definition dquote :: char where
  "dquote = CHR 0x22"

definition squote :: char where
  "squote = CHR 0x27"

definition backslash :: char where
  "backslash = CHR 0x5C"

text \<open>\<open>s.strip(c)\<close> for a one-character argument: every leading and trailing \<open>c\<close> goes.\<close>

definition py_strip :: "char \<Rightarrow> string \<Rightarrow> string" where
  "py_strip c s = rev (dropWhile (\<lambda>x. x = c) (rev (dropWhile (\<lambda>x. x = c) s)))"

text \<open>\<open>s.startswith(p)\<close> and \<open>s.endswith(p)\<close>.\<close>

definition startswith :: "string \<Rightarrow> string \<Rightarrow> bool" where
  "startswith s p = (take (length p) s = p)"

definition endswith :: "string \<Rightarrow> string \<Rightarrow> bool" where
  "endswith s p = (length p \<le> length s \<and> drop (length s - length p) s = p)"

text \<open>\<open>str(n)\<close> for integers, in decimal.\<close>

fun str_nat :: "nat \<Rightarrow> string" where
  "str_nat n =
     (if n < 10 then [char_of (48 + n)]
      else str_nat (n div 10) @ [char_of (48 + n mod 10)])"

declare str_nat.simps [simp del]

definition str_int :: "int \<Rightarrow> string" where
  "str_int i = (if i < 0 then CHR ''-'' # str_nat (nat (- i)) else str_nat (nat i))"

fun py_str :: "pyval \<Rightarrow> string" where
  "py_str PNone = ''None''"
| "py_str (PInt i) = str_int i"
| "py_str (PStr s) = s"

section \<open>The document tree\<close>

text \<open>
  \<open>PandocAttributes\<close>: identifier, classes and the key/value attributes. The object
  built in \<open>_process_figure\<close> is a fresh parse of the image's attribute list, so
  changing it does not change the image.
\<close>

record pattrs =
  aid :: string
  classes :: "string list"
  kvs :: "string \<rightharpoonup> pyval"

text \<open>
  An image's content list \<open>c\<close> is \<open>[attrs, caption, [url, title]]\<close>, or
  \<open>[caption, [url, title]]\<close> (length 2) when no attributes are attached: the
  attributes are optional in \<open>Image\<close>.
\<close>

datatype inline =
    Str string
  | Space
  | RawInline string string
  | Math string
  | Image "pattrs option" "inline list" "string \<times> string"
  | OtherInline string

datatype block =
    Para "inline list"
  | RawBlock string string
  | Div "block list"
  | OtherBlock string

section \<open>Module-level state\<close>

record globals =
  captionname :: string
  cleveref :: bool
  capitalise :: bool
  plusname :: "string list"
  starname :: "string list"
  numbersections :: bool
  warninglevel :: int
  cursec :: pyval
  Nreferences :: int
  references :: "string \<rightharpoonup> pyval \<times> pyval"
  captionname_changed :: bool
  plusname_changed :: bool
  starname_changed :: bool
  has_unnumbered_figures :: bool
  has_tagged_figures :: bool
  PANDOCVERSION :: string
  uuid_calls :: nat

text \<open>The values the module assigns at import time; the pandoc version is set by \<open>main\<close>.\<close>

definition init_globals :: "string \<Rightarrow> globals" where
  "init_globals pv =
     \<lparr> captionname = ''Figure'', cleveref = False, capitalise = False,
       plusname = [''fig.'', ''figs.''], starname = [''Figure'', ''Figures''],
       numbersections = False, warninglevel = 1,
       cursec = PNone, Nreferences = 0, references = Map.empty,
       captionname_changed = False, plusname_changed = False,
       starname_changed = False, has_unnumbered_figures = False,
       has_tagged_figures = False, PANDOCVERSION = pv, uuid_calls = 0 \<rparr>"

section \<open>Processing one figure\<close>

record fig =
  is_unnumbered :: bool
  is_unreferenceable :: bool
  is_tagged :: bool
  attrs :: "pattrs option"
  caption :: "inline list option"

definition fig0 :: fig where
  "fig0 = \<lparr> is_unnumbered = False, is_unreferenceable = False, is_tagged = False,
            attrs = None, caption = None \<rparr>"

text \<open>
  \<open>LABEL_PATTERN = re.compile(r'(fig:[\w/-]*)')\<close> and \<open>LABEL_PATTERN.match(s)\<close>: the
  starred class matches the empty string, so the match succeeds exactly when \<open>s\<close>
  begins with \<open>fig:\<close>.
\<close>

definition label_match :: "string \<Rightarrow> bool" where
  "label_match s = startswith s ''fig:''"

definition html_fmts :: "string list" where
  "html_fmts = [''html'', ''html5'', ''epub'', ''epub2'', ''epub3'']"

definition tex_fmts :: "string list" where
  "tex_fmts = [''latex'', ''beamer'']"

text \<open>Lines 187-191: remove any surrounding quotes; \<open>tag[0]\<close> raises on the empty string.\<close>

fun strip_quotes :: "pyval \<Rightarrow> error + pyval" where
  "strip_quotes (PStr s) =
     (if s = [] then Inl IndexError
      else if hd s = dquote \<and> last s = dquote then Inr (PStr (py_strip dquote s))
      else if hd s = squote \<and> last s = squote then Inr (PStr (py_strip squote s))
      else Inr (PStr s))"
| "strip_quotes _ = Inl TypeError"

text \<open>Lines 163-166: a bare \<open>fig:\<close> gets the next uuid appended and is unreferenceable.\<close>

definition identify :: "(nat \<Rightarrow> string) \<Rightarrow> pattrs \<Rightarrow> globals \<Rightarrow> pattrs \<times> bool \<times> globals" where
  "identify uuid4 a st =
     (if aid a = ''fig:''
      then (a\<lparr>aid := aid a @ uuid4 (uuid_calls st)\<rparr>, True,
            st\<lparr>uuid_calls := Suc (uuid_calls st)\<rparr>)
      else (a, False, st))"

text \<open>Lines 168-171: update the current section number.\<close>

definition update_section :: "pyval \<Rightarrow> globals \<Rightarrow> globals" where
  "update_section secno st =
     (if secno \<noteq> cursec st then st\<lparr>cursec := secno, Nreferences := 1\<rparr> else st)"

text \<open>Lines 175-182: hard-coded section tags for the formats without native support.\<close>

definition number_by_section :: "string \<Rightarrow> pattrs \<Rightarrow> globals \<Rightarrow> pattrs \<times> globals" where
  "number_by_section fmt a st =
     (if numbersections st \<and> fmt \<in> set (html_fmts @ [''docx'']) \<and> kvs a ''tag'' = None
      then (a\<lparr>kvs := (kvs a)(''tag'' \<mapsto> PStr (py_str (cursec st) @ ''.'' @ str_int (Nreferences st)))\<rparr>,
            st\<lparr>Nreferences := Nreferences st + 1\<rparr>)
      else (a, st))"

text \<open>Lines 184-195: save the tag, or else the next number.\<close>

definition save_reference :: "pattrs \<Rightarrow> globals \<Rightarrow> error + (pattrs \<times> globals)" where
  "save_reference a st =
     (case kvs a ''tag'' of
        Some t \<Rightarrow>
          (case strip_quotes t of
             Inl e \<Rightarrow> Inl e
           | Inr t' \<Rightarrow>
               Inr (a\<lparr>kvs := (kvs a)(''tag'' \<mapsto> t')\<rparr>,
                    st\<lparr>references := (references st)(aid a \<mapsto> (t', cursec st))\<rparr>))
      | None \<Rightarrow>
          (let n = Nreferences st + 1
           in Inr (a, st\<lparr>Nreferences := n,
                          references := (references st)(aid a \<mapsto> (PInt n, cursec st))\<rparr>)))"

text \<open>
  \<open>_process_figure(value, fmt)\<close>. \<open>uuid4\<close> gives the text of the k-th
  \<open>uuid.uuid4()\<close> of the run.
\<close>

definition process_figure ::
  "(nat \<Rightarrow> string) \<Rightarrow> inline list \<Rightarrow> string \<Rightarrow> globals \<Rightarrow> error + (fig \<times> globals)" where
  "process_figure uuid4 value fmt st =
     (case value of
        Image None cap tgt # _ \<Rightarrow>
          Inr (fig0\<lparr>is_unnumbered := True, is_unreferenceable := True\<rparr>,
               st\<lparr>has_unnumbered_figures := True\<rparr>)
      | Image (Some a0) cap tgt # _ \<Rightarrow>
          (if \<not> label_match (aid a0)
           then Inr (fig0\<lparr>is_unnumbered := True, is_unreferenceable := True,
                          attrs := Some a0, caption := Some cap\<rparr>,
                     st\<lparr>has_unnumbered_figures := True\<rparr>)
           else
             (case identify uuid4 a0 st of (a1, unref, st1) \<Rightarrow>
               (case kvs a1 ''secno'' of
                  None \<Rightarrow> Inl KeyError
                | Some secno \<Rightarrow>
                    (case number_by_section fmt a1 (update_section secno st1) of (a2, st2) \<Rightarrow>
                      (case save_reference a2 st2 of
                         Inl e \<Rightarrow> Inl e
                       | Inr (a3, st3) \<Rightarrow>
                           Inr (fig0\<lparr>is_unreferenceable := unref,
                                     is_tagged := (kvs a2 ''tag'' \<noteq> None),
                                     attrs := Some a3, caption := Some cap\<rparr>, st3))))))
      | _ \<Rightarrow> Inl TypeError)"

section \<open>Captions and markup\<close>

text \<open>Python's \<open><\<close> on strings: lexicographic on the characters' codes.\<close>

fun str_less :: "string \<Rightarrow> string \<Rightarrow> bool" where
  "str_less [] [] = False"
| "str_less [] (y # ys) = True"
| "str_less (x # xs) [] = False"
| "str_less (x # xs) (y # ys) =
     ((of_char x :: nat) < of_char y \<or> (x = y \<and> str_less xs ys))"

text \<open>\<open>text.replace(' ', r'\ ')\<close> and the slice \<open>s[1:-1]\<close>.\<close>

definition escape_spaces :: "string \<Rightarrow> string" where
  "escape_spaces s = concat (map (\<lambda>c. if c = CHR '' '' then [backslash, CHR '' ''] else [c]) s)"

definition slice_1_m1 :: "string \<Rightarrow> string" where
  "slice_1_m1 s = take (length s - 2) (drop 1 s)"

text \<open>Lines 225-229: the elements that show a tag.\<close>

definition tag_els :: "string \<Rightarrow> inline list" where
  "tag_els text =
     (if startswith text ''$'' \<and> endswith text ''$''
      then [Math (slice_1_m1 (escape_spaces text)), Str '':'']
      else [Str (text @ '':'')])"

text \<open>
  \<open>_adjust_caption(fmt, fig, value)\<close>: the new \<open>value\<close>, whose image has the adjusted
  caption. \<open>value[0]['c'][1]\<close> is the caption of the image.
\<close>

definition adjust_caption :: "string \<Rightarrow> fig \<Rightarrow> inline list \<Rightarrow> globals \<Rightarrow> error + inline list" where
  "adjust_caption fmt f value st =
     (case (attrs f, caption f, value) of
        (Some a, Some cap0, Image ia cap tgt # rest) \<Rightarrow>
          (if fmt \<in> set tex_fmts
           then
             (if str_less (PANDOCVERSION st) ''1.17'' \<and> \<not> is_unreferenceable f
              then Inr (Image ia (cap @ [RawInline ''tex''
                          (backslash # ''protect'' @ backslash # ''label{'' @ aid a @ ''}'')]) tgt # rest)
              else Inr value)
           else if is_unnumbered f then Inr value
           else
             (case references st (aid a) of
                None \<Rightarrow> Inl KeyError
              | Some (PInt n, sec) \<Rightarrow>
                  (if fmt \<in> set html_fmts
                   then Inr (Image ia ([RawInline ''html'' ''<span>'', Str (captionname st), Space,
                                        Str (str_int n @ '':''), RawInline ''html'' ''</span>'']
                                       @ [Space] @ cap0) tgt # rest)
                   else Inr (Image ia ([Str (captionname st), Space, Str (str_int n @ '':'')]
                                       @ [Space] @ cap0) tgt # rest))
              | Some (PStr text, sec) \<Rightarrow>
                  (if fmt \<in> set html_fmts
                   then Inr (Image ia ([RawInline ''html'' ''<span>'', Str (captionname st), Space]
                                       @ tag_els text @ [RawInline ''html'' ''</span>'']
                                       @ [Space] @ cap0) tgt # rest)
                   else Inr (Image ia ([Str (captionname st), Space] @ tag_els text
                                       @ [Space] @ cap0) tgt # rest))
              | Some (PNone, sec) \<Rightarrow> Inl AssertionError))
      | _ \<Rightarrow> Inl KeyError)"

text \<open>\<open>_add_markup(fmt, fig, value)\<close>: the replacement blocks, or \<open>None\<close>.\<close>

definition add_markup ::
  "string \<Rightarrow> fig \<Rightarrow> inline list \<Rightarrow> globals \<Rightarrow> error + (block list option \<times> globals)" where
  "add_markup fmt f value st =
     (if is_unnumbered f
      then
        (if fmt \<in> set tex_fmts
         then Inr (Some [RawBlock ''tex'' (backslash # ''begin{fignos:no-prefix-figure-caption}''),
                         Para value,
                         RawBlock ''tex'' (backslash # ''end{fignos:no-prefix-figure-caption}'')], st)
         else Inr (None, st))
      else
        (case attrs f of
           None \<Rightarrow> Inl KeyError
         | Some a \<Rightarrow>
             (if fmt \<in> set tex_fmts
              then
                (if is_tagged f
                 then
                   (case references st (aid a) of
                      None \<Rightarrow> Inl KeyError
                    | Some (d, sec) \<Rightarrow>
                        Inr (Some [RawBlock ''tex'' (backslash # ''begin{fignos:tagged-figure}[''
                                                      @ py_str d @ '']''),
                                   Para value,
                                   RawBlock ''tex'' (backslash # ''end{fignos:tagged-figure}'')],
                             st\<lparr>has_tagged_figures := True\<rparr>))
                 else Inr (None, st))
              else if fmt \<in> set html_fmts
              then
                (if str_less (PANDOCVERSION st) ''1.16'' \<and> label_match (aid a)
                 then Inr (Some [RawBlock ''html'' (''<a name='' @ dquote # aid a @ dquote # ''></a>''),
                                 Para value], st)
                 else Inr (None, st))
              else if fmt = ''docx''
              then Inr (Some [RawBlock ''openxml''
                                (''<w:bookmarkStart w:id='' @ dquote # ''0'' @ dquote # '' w:name=''
                                 @ dquote # aid a @ dquote # ''/>''),
                              Para value,
                              RawBlock ''openxml''
                                (''<w:bookmarkEnd w:id='' @ dquote # ''0'' @ dquote # ''/>'')], st)
              else Inr (None, st))))"

text \<open>
  \<open>process_figures(key, value, fmt, meta)\<close>, the action of the first pass. For a key
  other than \<open>Para\<close> the code never looks at \<open>value\<close>. The test
  \<open>value[0]['c'][-1][1].startswith('fig:')\<close> reads the second component of the last
  entry of the image's content, which is the title of the target \<open>[url, title]\<close>.
  The result holds the returned blocks, the value as mutated in place, and the state.
\<close>

definition is_figure :: "string \<Rightarrow> inline list \<Rightarrow> bool" where
  "is_figure key value =
     (key = ''Para'' \<and> length value = 1 \<and>
      (case value ! 0 of Image ia cap (url, title) \<Rightarrow> startswith title ''fig:'' | _ \<Rightarrow> False))"

definition process_figures ::
  "(nat \<Rightarrow> string) \<Rightarrow> string \<Rightarrow> inline list \<Rightarrow> string \<Rightarrow> globals
     \<Rightarrow> error + (block list option \<times> inline list \<times> globals)" where
  "process_figures uuid4 key value fmt st =
     (if is_figure key value
      then
        (case process_figure uuid4 value fmt st of
           Inl e \<Rightarrow> Inl e
         | Inr (f, st1) \<Rightarrow>
             (case (if attrs f \<noteq> None then adjust_caption fmt f value st1 else Inr value) of
                Inl e \<Rightarrow> Inl e
              | Inr value' \<Rightarrow>
                  (case add_markup fmt f value' st1 of
                     Inl e \<Rightarrow> Inl e
                   | Inr (ret, st2) \<Rightarrow> Inr (ret, value', st2))))
      else Inr (None, value, st))"

text \<open>
  \<open>walk(blocks, process_figures, fmt, meta)\<close>: the action is tried on every node in
  document order; a returned list replaces the node, \<open>None\<close> keeps it. Only \<open>Para\<close>
  nodes are ever changed by this action, so the walk below the paragraphs is the identity.
\<close>

fun walk_figures ::
  "(nat \<Rightarrow> string) \<Rightarrow> string \<Rightarrow> block list \<Rightarrow> globals \<Rightarrow> error + (block list \<times> globals)" where
  "walk_figures uuid4 fmt [] st = Inr ([], st)"
| "walk_figures uuid4 fmt (Para value # bs) st =
     (case process_figures uuid4 ''Para'' value fmt st of
        Inl e \<Rightarrow> Inl e
      | Inr (ret, value', st1) \<Rightarrow>
          (case walk_figures uuid4 fmt bs st1 of
             Inl e \<Rightarrow> Inl e
           | Inr (bs', st2) \<Rightarrow>
               Inr ((case ret of None \<Rightarrow> [Para value'] | Some res \<Rightarrow> res) @ bs', st2)))"
| "walk_figures uuid4 fmt (Div cs # bs) st =
     (case walk_figures uuid4 fmt cs st of
        Inl e \<Rightarrow> Inl e
      | Inr (cs', st1) \<Rightarrow>
          (case walk_figures uuid4 fmt bs st1 of
             Inl e \<Rightarrow> Inl e
           | Inr (bs', st2) \<Rightarrow> Inr (Div cs' # bs', st2)))"
| "walk_figures uuid4 fmt (b # bs) st =
     (case walk_figures uuid4 fmt bs st of
        Inl e \<Rightarrow> Inl e
      | Inr (bs', st1) \<Rightarrow> Inr (b # bs', st1))"

section \<open>Metadata\<close>

text \<open>
  What \<open>get_meta(meta, name)\<close> of pandocxnos hands back for a metadata field: a
  string, a boolean, a list, or a dictionary. \<open>meta\<close> lists the fields in the
  order of the document's dictionary.
\<close>

datatype metaval = MStr string | MBool bool | MList "metaval list" | MDict "(string \<times> string) list"

type_synonym meta = "(string \<times> metaval) list"

fun is_MStr :: "metaval \<Rightarrow> bool" where
  "is_MStr (MStr s) = True"
| "is_MStr _ = False"

fun the_MStr :: "metaval \<Rightarrow> string" where
  "the_MStr (MStr s) = s"
| "the_MStr _ = []"

text \<open>
  The library and the interpreter, as far as this file calls them: \<open>int\<close> and
  \<open>check_bool\<close> applied to a metadata value, the text of the k-th \<open>uuid.uuid4()\<close>,
  the walks of the library's own actions around \<open>process_figures\<close> in the first
  pass, the whole second pass (which also settles \<open>pandocxnos.cleveref_required()\<close>),
  and \<open>pandocxnos.add_tex_to_header_includes(meta, tex, warninglevel, regex)\<close>.
\<close>

record externals =
  py_int :: "metaval \<Rightarrow> error + int"
  check_bool :: "metaval \<Rightarrow> error + bool"
  uuid4 :: "nat \<Rightarrow> string"
  attach_and_insert_secnos :: "globals \<Rightarrow> string \<Rightarrow> meta \<Rightarrow> block list \<Rightarrow> error + block list"
  delete_secnos_and_detach :: "globals \<Rightarrow> string \<Rightarrow> meta \<Rightarrow> block list \<Rightarrow> error + block list"
  second_pass :: "globals \<Rightarrow> string \<Rightarrow> meta \<Rightarrow> block list \<Rightarrow> error + (block list \<times> bool)"
  add_tex_to_header_includes :: "meta \<Rightarrow> string \<Rightarrow> int \<Rightarrow> string option \<Rightarrow> meta"

text \<open>
  \<open>str.title()\<close>: a letter is put in upper case unless the character before it is a
  letter, in which case it is put in lower case. This is exact for ASCII text. A byte beyond
  ASCII is left as it is, where Python also cases the letters beyond ASCII: what is proved
  about title-cased names is stated for ASCII names.
\<close>

definition is_upper :: "char \<Rightarrow> bool" where
  "is_upper c = (65 \<le> (of_char c :: nat) \<and> (of_char c :: nat) \<le> 90)"

definition is_lower :: "char \<Rightarrow> bool" where
  "is_lower c = (97 \<le> (of_char c :: nat) \<and> (of_char c :: nat) \<le> 122)"

definition to_upper :: "char \<Rightarrow> char" where
  "to_upper c = (if is_lower c then char_of ((of_char c :: nat) - 32) else c)"

definition to_lower :: "char \<Rightarrow> char" where
  "to_lower c = (if is_upper c then char_of ((of_char c :: nat) + 32) else c)"

fun title_from :: "bool \<Rightarrow> string \<Rightarrow> string" where
  "title_from prev [] = []"
| "title_from prev (c # cs) =
     (if prev then to_lower c else to_upper c) # title_from (is_upper c \<or> is_lower c) cs"

definition py_title :: "string \<Rightarrow> string" where
  "py_title s = title_from False s"

text \<open>The first of the names that is a field of the metadata (\<open>for ... if name in meta: ...; break\<close>).\<close>

fun first_in_meta :: "meta \<Rightarrow> string list \<Rightarrow> metaval option" where
  "first_in_meta m [] = None"
| "first_in_meta m (n # ns) =
     (case map_of m n of Some v \<Rightarrow> Some v | None \<Rightarrow> first_in_meta m ns)"

text \<open>Lines 380-383.\<close>

definition read_warninglevel :: "externals \<Rightarrow> meta \<Rightarrow> globals \<Rightarrow> error + globals" where
  "read_warninglevel ext m st =
     (case first_in_meta m [''fignos-warning-level'', ''xnos-warning-level''] of
        None \<Rightarrow> Inr st
      | Some v \<Rightarrow>
          (case py_int ext v of Inl e \<Rightarrow> Inl e | Inr n \<Rightarrow> Inr (st\<lparr>warninglevel := n\<rparr>)))"

text \<open>Lines 401-405; the assertion follows the assignment, and a failed run keeps no state.\<close>

definition read_captionname :: "meta \<Rightarrow> globals \<Rightarrow> error + globals" where
  "read_captionname m st =
     (case map_of m ''fignos-caption-name'' of
        None \<Rightarrow> Inr st
      | Some (MStr s) \<Rightarrow>
          Inr (st\<lparr>captionname := s, captionname_changed := (s \<noteq> captionname st)\<rparr>)
      | Some _ \<Rightarrow> Inl AssertionError)"

text \<open>Lines 407-411, 413-421 and 449-452.\<close>

definition read_cleveref :: "externals \<Rightarrow> meta \<Rightarrow> globals \<Rightarrow> error + globals" where
  "read_cleveref ext m st =
     (case first_in_meta m [''fignos-cleveref'', ''xnos-cleveref''] of
        None \<Rightarrow> Inr st
      | Some v \<Rightarrow>
          (case check_bool ext v of Inl e \<Rightarrow> Inl e | Inr b \<Rightarrow> Inr (st\<lparr>cleveref := b\<rparr>)))"

definition read_capitalise :: "externals \<Rightarrow> meta \<Rightarrow> globals \<Rightarrow> error + globals" where
  "read_capitalise ext m st =
     (case first_in_meta m [''xnos-capitalise'', ''xnos-capitalize''] of
        None \<Rightarrow> Inr st
      | Some v \<Rightarrow>
          (case check_bool ext v of Inl e \<Rightarrow> Inl e | Inr b \<Rightarrow> Inr (st\<lparr>capitalise := b\<rparr>)))"

definition read_numbersections :: "externals \<Rightarrow> meta \<Rightarrow> globals \<Rightarrow> error + globals" where
  "read_numbersections ext m st =
     (case first_in_meta m [''fignos-number-sections'', ''xnos-number-sections''] of
        None \<Rightarrow> Inr st
      | Some v \<Rightarrow>
          (case check_bool ext v of Inl e \<Rightarrow> Inl e | Inr b \<Rightarrow> Inr (st\<lparr>numbersections := b\<rparr>)))"

text \<open>
  The new value of a name pair (lines 426-429 and 440-443): the list that was given, or
  the old pair with its first entry replaced, which needs a first entry.
\<close>

definition assign_names :: "metaval \<Rightarrow> string list \<Rightarrow> error + metaval list" where
  "assign_names tmp old =
     (case tmp of
        MList l \<Rightarrow> Inr l
      | _ \<Rightarrow> (if old = [] then Inl IndexError else Inr ((map MStr old)[0 := tmp])))"

text \<open>The two assertions on a name pair (lines 431-433 and 445-447).\<close>

definition check_names :: "metaval list \<Rightarrow> error + string list" where
  "check_names names =
     (if length names \<noteq> 2 then Inl AssertionError
      else if \<not> list_all is_MStr names then Inl AssertionError
      else Inr (map the_MStr names))"

text \<open>Lines 423-435.\<close>

definition read_plusname :: "meta \<Rightarrow> globals \<Rightarrow> error + globals" where
  "read_plusname m st =
     (case map_of m ''fignos-plus-name'' of
        None \<Rightarrow> Inr st
      | Some tmp \<Rightarrow>
          (case assign_names tmp (plusname st) of
             Inl e \<Rightarrow> Inl e
           | Inr new \<Rightarrow>
               (case check_names new of
                  Inl e \<Rightarrow> Inl e
                | Inr names \<Rightarrow>
                    (let changed = (new \<noteq> map MStr (plusname st));
                         st1 = st\<lparr>plusname := names, plusname_changed := changed\<rparr>
                     in Inr (if changed then st1\<lparr>starname := map py_title names\<rparr> else st1)))))"

text \<open>Lines 437-447.\<close>

definition read_starname :: "meta \<Rightarrow> globals \<Rightarrow> error + globals" where
  "read_starname m st =
     (case map_of m ''fignos-star-name'' of
        None \<Rightarrow> Inr st
      | Some tmp \<Rightarrow>
          (case assign_names tmp (starname st) of
             Inl e \<Rightarrow> Inl e
           | Inr new \<Rightarrow>
               (case check_names new of
                  Inl e \<Rightarrow> Inl e
                | Inr names \<Rightarrow>
                    Inr (st\<lparr>starname := names,
                            starname_changed := (new \<noteq> map MStr (starname st))\<rparr>))))"

definition then_do :: "error + 'a \<Rightarrow> ('a \<Rightarrow> error + 'b) \<Rightarrow> error + 'b" where
  "then_do r f = (case r of Inl e \<Rightarrow> Inl e | Inr x \<Rightarrow> f x)"

text \<open>
  \<open>process(meta)\<close>. The diagnostics written to the error stream (lines 392-399) change
  no state and are left out.
\<close>

definition process :: "externals \<Rightarrow> meta \<Rightarrow> globals \<Rightarrow> error + globals" where
  "process ext m st =
     then_do (read_warninglevel ext m st) (\<lambda>st.
     then_do (read_captionname m st) (\<lambda>st.
     then_do (read_cleveref ext m st) (\<lambda>st.
     then_do (read_capitalise ext m st) (\<lambda>st.
     then_do (read_plusname m st) (\<lambda>st.
     then_do (read_starname m st) (\<lambda>st.
     read_numbersections ext m st))))))"

section \<open>Header includes and the main program\<close>

definition newline :: char where
  "newline = CHR 0x0A"

text \<open>The TeX blocks, as the strings the program passes on (after \<open>%\<close> formatting where it formats).\<close>

definition NO_PREFIX_CAPTION_ENV_TEX :: string where
  "NO_PREFIX_CAPTION_ENV_TEX =
     newline # ''%% pandoc-fignos: environment to disable figure caption prefixes'' @
     newline # backslash # ''makeatletter'' @ newline # backslash # ''newcounter{figno}'' @
     newline # backslash # ''newenvironment{fignos:no-prefix-figure-caption}{'' @
     newline # ''  '' @ backslash # ''caption@ifcompatibility{}{'' @ newline # ''    '' @
     backslash # ''let'' @ backslash # ''oldthefigure'' @ backslash # ''thefigure'' @
     newline # ''    '' @ backslash # ''let'' @ backslash # ''oldtheHfigure'' @
     backslash # ''theHfigure'' @ newline # ''    '' @ backslash # ''renewcommand{'' @
     backslash # ''thefigure}{figno:'' @ backslash # ''thefigno}'' @ newline # ''    '' @
     backslash # ''renewcommand{'' @ backslash # ''theHfigure}{figno:'' @
     backslash # ''thefigno}'' @ newline # ''    '' @ backslash # ''stepcounter{figno}'' @
     newline # ''    '' @ backslash # ''captionsetup{labelformat=empty}'' @
     newline # ''  }'' @ newline # ''}{'' @ newline # ''  '' @
     backslash # ''caption@ifcompatibility{}{'' @ newline # ''    '' @
     backslash # ''captionsetup{labelformat=default}'' @ newline # ''    '' @
     backslash # ''let'' @ backslash # ''thefigure'' @ backslash # ''oldthefigure'' @
     newline # ''    '' @ backslash # ''let'' @ backslash # ''theHfigure'' @
     backslash # ''oldtheHfigure'' @ newline # ''    '' @
     backslash # ''addtocounter{figure}{-1}'' @ newline # ''  }'' @ newline # ''}'' @
     newline # backslash # ''makeatother'' @ [newline]"

definition TAGGED_FIGURE_ENV_TEX :: string where
  "TAGGED_FIGURE_ENV_TEX =
     newline # ''%% pandoc-fignos: environment for tagged figures'' @
     newline # backslash # ''newenvironment{fignos:tagged-figure}[1][]{'' @
     newline # ''  '' @ backslash # ''let'' @ backslash # ''oldthefigure'' @
     backslash # ''thefigure'' @ newline # ''  '' @ backslash # ''let'' @
     backslash # ''oldtheHfigure'' @ backslash # ''theHfigure'' @ newline # ''  '' @
     backslash # ''renewcommand{'' @ backslash # ''thefigure}{#1}'' @ newline # ''  '' @
     backslash # ''renewcommand{'' @ backslash # ''theHfigure}{#1}'' @ newline # ''}{'' @
     newline # ''  '' @ backslash # ''let'' @ backslash # ''thefigure'' @
     backslash # ''oldthefigure'' @ newline # ''  '' @ backslash # ''let'' @
     backslash # ''theHfigure'' @ backslash # ''oldtheHfigure'' @ newline # ''  '' @
     backslash # ''addtocounter{figure}{-1}'' @ newline # ''}'' @ [newline]"

definition CAPTION_NAME_TEX :: "string \<Rightarrow> string" where
  "CAPTION_NAME_TEX name =
     newline # ''% pandoc-fignos: change the caption name'' @
     newline # backslash # ''renewcommand{'' @ backslash # ''figurename}{'' @ name @
     ''}'' @ [newline]"

definition NUMBER_BY_SECTION_TEX :: string where
  "NUMBER_BY_SECTION_TEX =
     newline # ''%% pandoc-fignos: number figures by section'' @
     newline # backslash # ''numberwithin{figure}{section}'' @ [newline]"

definition cleveref_tex :: "string \<Rightarrow> string" where
  "cleveref_tex opt =
     newline # ''            %% pandoc-fignos: required package'' @
     newline # ''            '' @ backslash # ''usepackage'' @ opt @ ''{cleveref}'' @
     newline # ''        ''"

definition caption_package_tex :: string where
  "caption_package_tex =
     newline # ''            %%%% pandoc-fignos: required package'' @
     newline # ''            '' @ backslash # ''usepackage{caption}'' @
     newline # ''        ''"

definition crefname_tex :: "string \<Rightarrow> string \<Rightarrow> string" where
  "crefname_tex singular plural =
     newline # ''            %% pandoc-fignos: change cref names'' @
     newline # ''            '' @ backslash # ''crefname{figure}{'' @ singular @ ''}{'' @
     plural @ ''}'' @ newline # ''        ''"

definition Crefname_tex :: "string \<Rightarrow> string \<Rightarrow> string" where
  "Crefname_tex singular plural =
     ''            %% pandoc-fignos: change Cref names'' @ newline # ''            '' @
     backslash # ''Crefname{figure}{'' @ singular @ ''}{'' @ plural @ ''}'' @
     newline # ''        ''"

definition cleveref_regex :: string where
  "cleveref_regex =
     backslash # backslash # ''usepackage('' @ backslash # ''[['' @ backslash # ''w'' @
     backslash # ''s,]*'' @ backslash # ''])?'' @ backslash # ''{cleveref'' @
     backslash # ''}''"

definition caption_regex :: string where
  "caption_regex =
     backslash # backslash # ''usepackage('' @ backslash # ''[['' @ backslash # ''w'' @
     backslash # ''s,]*'' @ backslash # ''])?'' @ backslash # ''{caption'' @
     backslash # ''}''"

text \<open>\<open>(names[0], names[1])\<close>.\<close>

definition name_pair :: "string list \<Rightarrow> error + (string \<times> string)" where
  "name_pair names = (if length names < 2 then Inl IndexError else Inr (names ! 0, names ! 1))"

text \<open>
  The calls of \<open>add_tex_to_header_includes\<close> that \<open>add_tex(meta)\<close> makes, in order:
  the text and the optional pattern of each. \<open>cr\<close> is
  \<open>pandocxnos.cleveref_required()\<close>.
\<close>

definition crefname_calls :: "globals \<Rightarrow> error + (string \<times> string option) list" where
  "crefname_calls st =
     (if plusname_changed st
      then then_do (name_pair (plusname st)) (\<lambda>(a, b). Inr [(crefname_tex a b, None)])
      else Inr [])"

definition Crefname_calls :: "globals \<Rightarrow> error + (string \<times> string option) list" where
  "Crefname_calls st =
     (if starname_changed st
      then then_do (name_pair (starname st)) (\<lambda>(a, b). Inr [(Crefname_tex a b, None)])
      else Inr [])"

definition add_tex_calls :: "bool \<Rightarrow> globals \<Rightarrow> error + (string \<times> string option) list" where
  "add_tex_calls cr st =
     then_do (crefname_calls st) (\<lambda>crefs.
     then_do (Crefname_calls st) (\<lambda>Crefs.
     Inr ((if cr then [(cleveref_tex (if capitalise st then ''[capitalise]'' else []),
                        Some cleveref_regex)] else [])
          @ (if has_unnumbered_figures st then [(caption_package_tex, Some caption_regex)] else [])
          @ crefs
          @ Crefs
          @ (if has_unnumbered_figures st then [(NO_PREFIX_CAPTION_ENV_TEX, None)] else [])
          @ (if has_tagged_figures st then [(TAGGED_FIGURE_ENV_TEX, None)] else [])
          @ (if captionname st \<noteq> ''Figure''
             then [(CAPTION_NAME_TEX (captionname st), None)] else [])
          @ (if numbersections st then [(NUMBER_BY_SECTION_TEX, None)] else []))))"

text \<open>\<open>add_tex(meta)\<close>; the notice on the error stream is left out.\<close>

definition add_tex :: "externals \<Rightarrow> bool \<Rightarrow> meta \<Rightarrow> globals \<Rightarrow> error + meta" where
  "add_tex ext cr m st =
     then_do (add_tex_calls cr st) (\<lambda>calls.
       Inr (foldl (\<lambda>m' (tex, regex).
                    add_tex_to_header_includes ext m' tex (warninglevel st) regex) m calls))"

text \<open>
  \<open>main()\<close> on a document given as metadata and blocks, for the pandoc version \<open>pv\<close>
  that \<open>pandocxnos.init\<close> reports: the metadata and blocks that are written out. The
  library's actions get the metadata to read; this file's own action ignores it.
\<close>

definition main ::
  "externals \<Rightarrow> string \<Rightarrow> string \<Rightarrow> meta \<Rightarrow> block list \<Rightarrow> error + (meta \<times> block list)" where
  "main ext fmt pv m blocks =
     then_do (process ext m (init_globals pv)) (\<lambda>st1.
     then_do (attach_and_insert_secnos ext st1 fmt m blocks) (\<lambda>b1.
     then_do (walk_figures (uuid4 ext) fmt b1 st1) (\<lambda>(b2, st2).
     then_do (delete_secnos_and_detach ext st2 fmt m b2) (\<lambda>b3.
     then_do (second_pass ext st2 fmt m b3) (\<lambda>(b4, cr).
     then_do (if fmt \<in> set tex_fmts then add_tex ext cr m st2 else Inr m) (\<lambda>m'.
     Inr (m', b4)))))))"

section \<open>Example inputs\<close>

text \<open>An image with identifier \<open>i\<close> in section \<open>sec\<close>, as it reaches the first pass.\<close>

definition plain_attrs :: "string \<Rightarrow> pyval \<Rightarrow> pattrs" where
  "plain_attrs i sec = \<lparr> aid = i, classes = [], kvs = [''secno'' \<mapsto> sec] \<rparr>"

definition tagged_attrs :: "string \<Rightarrow> pyval \<Rightarrow> string \<Rightarrow> pattrs" where
  "tagged_attrs i sec t = \<lparr> aid = i, classes = [], kvs = [''secno'' \<mapsto> sec, ''tag'' \<mapsto> PStr t] \<rparr>"

definition figure_para :: "pattrs \<Rightarrow> block" where
  "figure_para a = Para [Image (Some a) [Str ''Caption''] (''img.png'', ''fig:'')]"

text \<open>A source of identifiers standing for \<open>uuid.uuid4()\<close>.\<close>

definition uuid_const :: "nat \<Rightarrow> string" where
  "uuid_const k = ''1b4e28ba-2fa1-4d3b-a3f5-ef19b5a7633b''"


text \<open>The state in the middle of section 1, three figures numbered so far.\<close>

definition mid_section :: globals where
  "mid_section = (init_globals ''2.7'')\<lparr>cursec := PInt 1, Nreferences := 3\<rparr>"

text \<open>
  Three figures in section "1" and one in section "2", each a paragraph of one image with
  the title pandoc gives an implicit figure.
\<close>

definition scenario_A :: "block list" where
  "scenario_A =
     [figure_para (plain_attrs ''fig:a'' (PStr ''1'')),
      figure_para (plain_attrs ''fig:b'' (PStr ''1'')),
      figure_para (plain_attrs ''fig:c'' (PStr ''1'')),
      figure_para (plain_attrs ''fig:d'' (PStr ''2''))]"

text \<open>The entries of the reference table for some identifiers after a walk.\<close>

definition entries ::
  "string list \<Rightarrow> error + (block list \<times> globals) \<Rightarrow> error + (pyval \<times> pyval) option list" where
  "entries ids r = (case r of Inl e \<Rightarrow> Inl e | Inr (bs, st) \<Rightarrow> Inr (map (references st) ids))"

section \<open>The specification's wording, for comparison\<close>

text \<open>
  The curly quotation marks, as the bytes of their UTF-8 encoding.
\<close>

definition ldquo :: string where
  "ldquo = [CHR 0xE2, CHR 0x80, CHR 0x9C]"

definition rdquo :: string where
  "rdquo = [CHR 0xE2, CHR 0x80, CHR 0x9D]"

definition lsquo :: string where
  "lsquo = [CHR 0xE2, CHR 0x80, CHR 0x98]"

definition rsquo :: string where
  "rsquo = [CHR 0xE2, CHR 0x80, CHR 0x99]"

definition quote_pairs :: "(string \<times> string) list" where
  "quote_pairs = [([dquote], [dquote]), ([squote], [squote]), (ldquo, rdquo), (lsquo, rsquo)]"

text \<open>
  The specification's words for the tag: "strip one layer of surrounding straight or curly
  quotes if present". This is not taken from the code; it is what the code is compared with.
\<close>

definition spec_strip_one_layer :: "string \<Rightarrow> string" where
  "spec_strip_one_layer s =
     (case filter (\<lambda>(l, r). length l + length r \<le> length s \<and> startswith s l \<and> endswith s r)
             quote_pairs of
        [] \<Rightarrow> s
      | (l, r) # _ \<Rightarrow> take (length s - length l - length r) (drop (length l) s))"

text \<open>The tag values \<open>""a""\<close> (two layers of straight quotes) and a curly-quoted \<open>a\<close>.\<close>

definition two_layers :: string where
  "two_layers = [dquote, dquote, CHR ''a'', dquote, dquote]"

definition curly_quoted :: string where
  "curly_quoted = ldquo @ ''a'' @ rdquo"

text \<open>
  The specification's words for a mathematical tag: "delimited by a single pair of
  \<open>$...$\<close> markers", an opening and a closing marker around the content.
\<close>

definition dollar_delimited :: "string \<Rightarrow> bool" where
  "dollar_delimited text = (2 \<le> length text \<and> hd text = CHR ''$'' \<and> last text = CHR ''$'')"

text \<open>The text between the two markers.\<close>

definition between_markers :: "string \<Rightarrow> string" where
  "between_markers text = butlast (tl text)"

text \<open>The captions of the images that stand alone in the top-level paragraphs after a walk.\<close>

fun captions_of :: "block list \<Rightarrow> inline list list" where
  "captions_of [] = []"
| "captions_of (Para [Image ia cap tgt] # bs) = cap # captions_of bs"
| "captions_of (b # bs) = captions_of bs"

definition walk_captions :: "error + (block list \<times> globals) \<Rightarrow> error + inline list list" where
  "walk_captions r = (case r of Inl e \<Rightarrow> Inl e | Inr (bs, st) \<Rightarrow> Inr (captions_of bs))"

text \<open>A processed figure \<open>fig:e\<close> with the tag \<open>$x y$\<close>, and the state that holds its entry.\<close>

definition math_fig :: fig where
  "math_fig = fig0\<lparr>is_tagged := True, attrs := Some (tagged_attrs ''fig:e'' (PInt 0) ''$x y$''),
                    caption := Some [Str ''Caption'']\<rparr>"

definition math_state :: globals where
  "math_state = (init_globals ''2.7'')\<lparr>cursec := PInt 0, Nreferences := 1,
                   references := [''fig:e'' \<mapsto> (PStr ''$x y$'', PInt 0)]\<rparr>"

text \<open>
  The glossary's figure-shaped node: "a paragraph-level node containing exactly one
  image/graphic child whose identifier begins with the reserved figure-label prefix".
\<close>

definition spec_figure_shaped :: "string \<Rightarrow> inline list \<Rightarrow> bool" where
  "spec_figure_shaped key value =
     (key = ''Para'' \<and>
      (case value of [Image (Some a) cap tgt] \<Rightarrow> startswith (aid a) ''fig:'' | _ \<Rightarrow> False))"

text \<open>
  Two lone images: one with the identifier \<open>fig:a\<close> and an empty title (not an implicit
  figure for pandoc), one with the identifier \<open>photo\<close> and the title \<open>fig:\<close>.
\<close>

definition labelled_untitled :: "inline list" where
  "labelled_untitled = [Image (Some (plain_attrs ''fig:a'' (PInt 0))) [Str ''Caption''] (''a.png'', [])]"

definition titled_unlabelled :: "inline list" where
  "titled_unlabelled = [Image (Some (plain_attrs ''photo'' (PInt 0))) [Str ''Caption''] (''p.png'', ''fig:'')]"

section \<open>Well-shaped metadata\<close>

text \<open>
  A name option is well shaped when it is one string (the singular form) or a list of
  exactly two strings.
\<close>

definition name_shape :: "metaval \<Rightarrow> bool" where
  "name_shape v =
     (case v of MStr s \<Rightarrow> True | MList l \<Rightarrow> length l = 2 \<and> list_all is_MStr l | _ \<Rightarrow> False)"

definition succeeds :: "error + 'a \<Rightarrow> bool" where
  "succeeds r = (case r of Inl e \<Rightarrow> False | Inr x \<Rightarrow> True)"

definition shaped :: "metaval option \<Rightarrow> (metaval \<Rightarrow> bool) \<Rightarrow> bool" where
  "shaped field ok = (case field of None \<Rightarrow> True | Some v \<Rightarrow> ok v)"

text \<open>
  A well-shaped configuration: every option that is present has the form its reader
  accepts.
\<close>

definition well_shaped :: "externals \<Rightarrow> meta \<Rightarrow> bool" where
  "well_shaped ext m =
     (shaped (first_in_meta m [''fignos-warning-level'', ''xnos-warning-level''])
        (\<lambda>v. succeeds (py_int ext v)) \<and>
      shaped (map_of m ''fignos-caption-name'') is_MStr \<and>
      shaped (first_in_meta m [''fignos-cleveref'', ''xnos-cleveref'']) (\<lambda>v. succeeds (check_bool ext v)) \<and>
      shaped (first_in_meta m [''xnos-capitalise'', ''xnos-capitalize'']) (\<lambda>v. succeeds (check_bool ext v)) \<and>
      shaped (map_of m ''fignos-plus-name'') name_shape \<and>
      shaped (map_of m ''fignos-star-name'') name_shape \<and>
      shaped (first_in_meta m [''fignos-number-sections'', ''xnos-number-sections''])
        (\<lambda>v. succeeds (check_bool ext v)))"

text \<open>
  A stand-in for the library: \<open>int\<close> and \<open>check_bool\<close> accept what they are meant
  for, the walks of the library leave the blocks alone, and a header block is put at the
  front of the metadata under the key \<open>header-includes\<close>.
\<close>

definition ext0 :: externals where
  "ext0 = \<lparr> py_int = (\<lambda>v. case v of MBool b \<Rightarrow> Inr (if b then 1 else 0) | _ \<Rightarrow> Inl ValueError),
            check_bool = (\<lambda>v. case v of MBool b \<Rightarrow> Inr b | _ \<Rightarrow> Inl ValueError),
            uuid4 = uuid_const,
            attach_and_insert_secnos = (\<lambda>st fmt m bs. Inr bs),
            delete_secnos_and_detach = (\<lambda>st fmt m bs. Inr bs),
            second_pass = (\<lambda>st fmt m bs. Inr (bs, False)),
            add_tex_to_header_includes = (\<lambda>m tex wl regex. (''header-includes'', MStr tex) # m) \<rparr>"

text \<open>
  Metadata with a one-element list for the mid-sentence names, and metadata with several
  well-shaped options.
\<close>

definition bad_meta :: meta where
  "bad_meta = [(''fignos-plus-name'', MList [MStr ''fig.''])]"

definition good_meta :: meta where
  "good_meta = [(''fignos-caption-name'', MStr ''Fig.''),
                (''fignos-plus-name'', MList [MStr ''panel'', MStr ''panels'']),
                (''fignos-star-name'', MStr ''Plate''),
                (''xnos-number-sections'', MBool False)]"

section \<open>Title case and name pairs, in the specification's terms\<close>









text \<open>
  A caption-name override directive is a header block that opens with the comment line
  \<open>% pandoc-fignos: change the caption name\<close> and the redefinition of LaTeX's
  \<open>\figurename\<close>; the new name and the closing brace follow.
\<close>

definition caption_name_marker :: string where
  "caption_name_marker =
     newline # ''% pandoc-fignos: change the caption name'' @
     newline # backslash # ''renewcommand{'' @ backslash # ''figurename}{''"

definition is_caption_name_directive :: "string \<Rightarrow> bool" where
  "is_caption_name_directive tex = startswith tex caption_name_marker"

text \<open>Metadata that sets the caption name and nothing else.\<close>

definition caption_meta :: meta where
  "caption_meta = [(''fignos-caption-name'', MStr ''Fig.'')]"

section \<open>Properties of \<open>_process_figure\<close>\<close>

lemma identify_kvs: "identify u a st = (a1, unref, st1) \<Longrightarrow> kvs a1 = kvs a"
  by (auto simp: identify_def split: if_splits)

lemma number_by_section_tagged:
  "kvs a ''tag'' \<noteq> None \<Longrightarrow> number_by_section fmt a st = (a, st)"
  by (auto simp: number_by_section_def)

text \<open>
  Claim C9. \<open>_process_figure\<close> is not total: on a figure with attributes, a matching
  label and a section number whose \<open>tag\<close> attribute is the empty string, the test
  \<open>attrs['tag'][0]\<close> raises \<open>IndexError\<close>. Nothing catches it: \<open>process_figures\<close>
  raises it too.
\<close>

theorem empty_tag_raises:
  assumes "label_match (aid a)" and "kvs a ''secno'' = Some secno"
    and "kvs a ''tag'' = Some (PStr [])"
  shows "process_figure u (Image (Some a) cap tgt # rest) fmt st = Inl IndexError \<and>
         (startswith (snd tgt) ''fig:'' \<longrightarrow>
            process_figures u ''Para'' [Image (Some a) cap tgt] fmt st = Inl IndexError)"
proof -
  obtain a1 unref st1 where id: "identify u a st = (a1, unref, st1)"
    by (cases "identify u a st") auto
  have k: "kvs a1 = kvs a" using id by (rule identify_kvs)
  have nb: "number_by_section fmt a1 (update_section secno st1) = (a1, update_section secno st1)"
    using k assms(3) by (simp add: number_by_section_tagged)
  have sv: "save_reference a1 (update_section secno st1) = Inl IndexError"
    using k assms(3) by (simp add: save_reference_def)
  have pf: "process_figure u (Image (Some a) cap tgt # rs) fmt st = Inl IndexError" for rs
    using assms(1,2) id k nb sv by (simp add: process_figure_def)
  have "process_figures u ''Para'' [Image (Some a) cap tgt] fmt st = Inl IndexError"
    if "startswith (snd tgt) ''fig:''"
    using that pf [of "[]"] by (cases tgt) (simp add: process_figures_def is_figure_def)
  with pf show ?thesis by blast
qed

theorem empty_tag_raises_witness:
  "process_figure (\<lambda>k. ''u'') [Image (Some (tagged_attrs ''fig:a'' (PInt 0) [])) [] (''a.png'', ''fig:'')]
     ''html'' (init_globals ''2.7'') = Inl IndexError \<and>
   process_figures (\<lambda>k. ''u'') ''Para''
     [Image (Some (tagged_attrs ''fig:a'' (PInt 0) [])) [] (''a.png'', ''fig:'')]
     ''html'' (init_globals ''2.7'') = Inl IndexError"
  using empty_tag_raises [of "tagged_attrs ''fig:a'' (PInt 0) []" "PInt 0" "\<lambda>k. ''u''" "[]"
      "(''a.png'', ''fig:'')" "[]" "''html''" "init_globals ''2.7''"]
  by (simp add: tagged_attrs_def label_match_def startswith_def)

lemma identify_counter:
  "identify u a st = (a1, unref, st1) \<Longrightarrow>
     Nreferences st1 = Nreferences st \<and> cursec st1 = cursec st \<and> references st1 = references st"
  by (auto simp: identify_def split: if_splits)

lemma update_section_counter:
  "Nreferences (update_section s st) = (if s \<noteq> cursec st then 1 else Nreferences st) \<and>
   cursec (update_section s st) = s \<and> references (update_section s st) = references st"
  by (simp add: update_section_def)

lemma save_reference_tagged:
  "kvs a ''tag'' = Some t \<Longrightarrow> strip_quotes t = Inr t' \<Longrightarrow>
     save_reference a st =
       Inr (a\<lparr>kvs := (kvs a)(''tag'' \<mapsto> t')\<rparr>,
            st\<lparr>references := (references st)(aid a \<mapsto> (t', cursec st))\<rparr>)"
  by (simp add: save_reference_def)

lemma process_figure_tagged:
  assumes "label_match (aid a)" and "kvs a ''secno'' = Some s"
    and "kvs a ''tag'' = Some t" and "strip_quotes t = Inr t'"
    and "identify u a st = (a1, unref, st1)"
  shows "process_figure u (Image (Some a) cap tgt # rest) fmt st =
           Inr (fig0\<lparr>is_unreferenceable := unref, is_tagged := True,
                     attrs := Some (a1\<lparr>kvs := (kvs a1)(''tag'' \<mapsto> t')\<rparr>), caption := Some cap\<rparr>,
                (update_section s st1)\<lparr>references :=
                   (references st1)(aid a1 \<mapsto> (t', s))\<rparr>)"
proof -
  have k: "kvs a1 = kvs a" using assms(5) by (rule identify_kvs)
  have nb: "number_by_section fmt a1 (update_section s st1) = (a1, update_section s st1)"
    using k assms(3) by (simp add: number_by_section_tagged)
  have sv: "save_reference a1 (update_section s st1) =
       Inr (a1\<lparr>kvs := (kvs a1)(''tag'' \<mapsto> t')\<rparr>,
            (update_section s st1)\<lparr>references := (references st1)(aid a1 \<mapsto> (t', s))\<rparr>)"
    using k assms(3,4) by (simp add: save_reference_tagged update_section_counter)
  show ?thesis
    using assms(1,2,5) k nb sv assms(3) by (simp add: process_figure_def)
qed

text \<open>
  Claim C7. A figure that carries a \<open>tag\<close> attribute leaves the counter as it was,
  except that, like every labelled figure, it sets the counter to the reset value 1 when its
  section number differs from the current one; it never adds to the counter. The two
  kinds of unnumbered figure (no attributes, or an identifier that does not match the label
  pattern) change neither the counter nor the current section.
\<close>

theorem counter_frame:
  "(label_match (aid a) \<and> kvs a ''secno'' = Some s \<and> kvs a ''tag'' = Some t \<and>
      strip_quotes t = Inr t' \<longrightarrow>
      (\<exists>f st'. process_figure u (Image (Some a) cap tgt # rest) fmt st = Inr (f, st') \<and>
         is_tagged f \<and> \<not> is_unnumbered f \<and>
         Nreferences st' = (if s \<noteq> cursec st then 1 else Nreferences st) \<and> cursec st' = s)) \<and>
   (\<not> label_match (aid b) \<longrightarrow>
      (\<exists>f st'. process_figure u (Image (Some b) cap tgt # rest) fmt st = Inr (f, st') \<and>
         is_unnumbered f \<and> Nreferences st' = Nreferences st \<and> cursec st' = cursec st)) \<and>
   (\<exists>f st'. process_figure u (Image None cap tgt # rest) fmt st = Inr (f, st') \<and>
         is_unnumbered f \<and> Nreferences st' = Nreferences st \<and> cursec st' = cursec st)"
proof (intro conjI impI)
  assume h: "label_match (aid a) \<and> kvs a ''secno'' = Some s \<and> kvs a ''tag'' = Some t \<and>
      strip_quotes t = Inr t'"
  obtain a1 unref st1 where id: "identify u a st = (a1, unref, st1)"
    by (cases "identify u a st") auto
  have c: "Nreferences st1 = Nreferences st \<and> cursec st1 = cursec st"
    using id identify_counter by blast
  show "\<exists>f st'. process_figure u (Image (Some a) cap tgt # rest) fmt st = Inr (f, st') \<and>
         is_tagged f \<and> \<not> is_unnumbered f \<and>
         Nreferences st' = (if s \<noteq> cursec st then 1 else Nreferences st) \<and> cursec st' = s"
    using h c process_figure_tagged [of a s t t' u st a1 unref st1 cap tgt rest fmt, OF _ _ _ _ id]
    by (simp add: update_section_counter fig0_def)
next
  assume "\<not> label_match (aid b)"
  then show "\<exists>f st'. process_figure u (Image (Some b) cap tgt # rest) fmt st = Inr (f, st') \<and>
         is_unnumbered f \<and> Nreferences st' = Nreferences st \<and> cursec st' = cursec st"
    by (simp add: process_figure_def)
next
  show "\<exists>f st'. process_figure u (Image None cap tgt # rest) fmt st = Inr (f, st') \<and>
         is_unnumbered f \<and> Nreferences st' = Nreferences st \<and> cursec st' = cursec st"
    by (simp add: process_figure_def)
qed

theorem counter_frame_witness:
  "(\<exists>f st'. process_figure uuid_const
        [Image (Some (tagged_attrs ''fig:a'' (PInt 1) ''S1'')) [] (''a.png'', ''fig:'')] ''html'' mid_section
          = Inr (f, st') \<and>
        is_tagged f \<and> \<not> is_unnumbered f \<and> Nreferences st' = 3 \<and> cursec st' = PInt 1) \<and>
   (\<exists>f st'. process_figure uuid_const
        [Image (Some (plain_attrs ''figure1'' (PInt 2))) [] (''a.png'', ''fig:'')] ''html'' mid_section
          = Inr (f, st') \<and>
        is_unnumbered f \<and> Nreferences st' = 3 \<and> cursec st' = PInt 1) \<and>
   (\<exists>f st'. process_figure uuid_const [Image None [] (''a.png'', ''fig:'')] ''html'' mid_section
          = Inr (f, st') \<and>
        is_unnumbered f \<and> Nreferences st' = 3 \<and> cursec st' = PInt 1)"
  using counter_frame [of "tagged_attrs ''fig:a'' (PInt 1) ''S1''" "PInt 1" "PStr ''S1''" "PStr ''S1''"
      uuid_const "[]" "(''a.png'', ''fig:'')" "[]" "''html''" mid_section
      "plain_attrs ''figure1'' (PInt 2)"]
  by (simp add: tagged_attrs_def plain_attrs_def label_match_def startswith_def mid_section_def
      init_globals_def dquote_def squote_def)

section \<open>Numbering in document order\<close>

text \<open>
  The step behind the numbers below: a labelled figure without a tag whose section number
  differs from the current one is stored with the number 2, whatever the counter was.
\<close>

lemma first_number_after_section_change:
  assumes "label_match (aid a)" and "aid a \<noteq> ''fig:''" and "kvs a ''secno'' = Some s"
    and "s \<noteq> cursec st" and "kvs a ''tag'' = None" and "\<not> numbersections st"
  shows "\<exists>f st'. process_figure u (Image (Some a) cap tgt # rest) fmt st = Inr (f, st') \<and>
           references st' (aid a) = Some (PInt 2, s) \<and> Nreferences st' = 2"
  using assms
  by (simp add: process_figure_def identify_def update_section_def number_by_section_def
      save_reference_def Let_def)

text \<open>
  Claim C1 says that the figures of one section get the numbers 1..N and that the first
  numbered figure after a change of section gets 1. The code sets the counter to 1 when
  the section changes (lines 169-171) and then adds 1 before it stores the number (lines
  194-195), and the run starts with \<open>cursec = None\<close>, so that the first figure always
  changes the section: on three figures of section "1" followed by one of section "2" the
  stored numbers are 2, 3, 4 and 2.
\<close>

theorem scenario_A_numbers:
  "entries [''fig:a'', ''fig:b'', ''fig:c'', ''fig:d'']
     (walk_figures u ''docx'' scenario_A (init_globals pv)) =
   Inr [Some (PInt 2, PStr ''1''), Some (PInt 3, PStr ''1''),
        Some (PInt 4, PStr ''1''), Some (PInt 2, PStr ''2'')]"
  by (simp add: entries_def scenario_A_def figure_para_def plain_attrs_def process_figures_def
      is_figure_def startswith_def process_figure_def label_match_def identify_def
      update_section_def number_by_section_def save_reference_def init_globals_def
      adjust_caption_def add_markup_def tex_fmts_def html_fmts_def fig0_def Let_def)

section \<open>Tags\<close>

text \<open>The definitions a run on a concrete document unfolds.\<close>

lemmas run_defs = entries_def figure_para_def plain_attrs_def tagged_attrs_def process_figures_def
      is_figure_def startswith_def endswith_def process_figure_def label_match_def identify_def
      update_section_def number_by_section_def save_reference_def init_globals_def
      adjust_caption_def add_markup_def tex_fmts_def html_fmts_def fig0_def Let_def
      tag_els_def py_strip_def dquote_def squote_def

lemma dropWhile_eq_shape: "\<exists>n. xs = replicate n c @ dropWhile (\<lambda>x. x = c) xs"
proof (induction xs)
  case Nil
  show ?case by simp
next
  case (Cons x xs)
  then obtain n where n: "xs = replicate n c @ dropWhile (\<lambda>x. x = c) xs" by blast
  show ?case
  proof (cases "x = c")
    case True
    have "x # xs = replicate (Suc n) c @ dropWhile (\<lambda>x. x = c) (x # xs)"
      using True n by simp
    then show ?thesis by (rule exI)
  next
    case False
    have "x # xs = replicate 0 c @ dropWhile (\<lambda>x. x = c) (x # xs)"
      using False by simp
    then show ?thesis by (rule exI)
  qed
qed

text \<open>What \<open>strip\<close> removes: only copies of the character, at both ends, and all of them.\<close>

lemma py_strip_shape: "\<exists>n m. s = replicate n c @ py_strip c s @ replicate m c"
proof -
  define t where "t = dropWhile (\<lambda>x. x = c) s"
  obtain n where n: "s = replicate n c @ t"
    using dropWhile_eq_shape [of s c] unfolding t_def by blast
  obtain m where m: "rev t = replicate m c @ dropWhile (\<lambda>x. x = c) (rev t)"
    using dropWhile_eq_shape [of "rev t" c] by blast
  have "rev (rev t) = rev (replicate m c @ dropWhile (\<lambda>x. x = c) (rev t))"
    using m by (rule arg_cong)
  then have "t = py_strip c s @ replicate m c"
    by (simp add: py_strip_def t_def)
  then have "s = replicate n c @ py_strip c s @ replicate m c"
    using n by simp
  then show ?thesis by blast
qed

lemma py_strip_ends:
  assumes ne: "py_strip c s \<noteq> []"
  shows "hd (py_strip c s) \<noteq> c \<and> last (py_strip c s) \<noteq> c"
proof -
  define t where "t = dropWhile (\<lambda>x. x = c) s"
  define r where "r = dropWhile (\<lambda>x. x = c) (rev t)"
  have p: "py_strip c s = rev r" by (simp add: py_strip_def r_def t_def)
  have rne: "r \<noteq> []" using ne p by simp
  have hr: "hd r \<noteq> c"
    using hd_dropWhile [of "\<lambda>x. x = c" "rev t"] rne by (simp add: r_def)
  have la: "last (py_strip c s) \<noteq> c" using hr p rne by (simp add: last_rev)
  have tne: "t \<noteq> []" using rne by (auto simp: r_def)
  have ht: "hd t \<noteq> c"
    using hd_dropWhile [of "\<lambda>x. x = c" s] tne by (simp add: t_def)
  obtain m where m: "rev t = replicate m c @ r"
    using dropWhile_eq_shape [of "rev t" c] unfolding r_def by blast
  have "rev (rev t) = rev (replicate m c @ r)" using m by (rule arg_cong)
  then have "t = rev r @ replicate m c" by simp
  then have "hd t = hd (rev r)" using rne by simp
  then show ?thesis using ht la p by simp
qed

lemma labelled_tag_stored:
  assumes "label_match (aid a)" and "kvs a ''secno'' = Some s"
    and "kvs a ''tag'' = Some (PStr tg)" and "tg \<noteq> []"
  shows "\<exists>f st'. process_figure u (Image (Some a) cap tgt # rest) fmt st = Inr (f, st') \<and>
           is_tagged f \<and> cursec st' = s \<and>
           references st' (if aid a = ''fig:'' then ''fig:'' @ u (uuid_calls st) else aid a) =
             Some (PStr (if hd tg = dquote \<and> last tg = dquote then py_strip dquote tg
                         else if hd tg = squote \<and> last tg = squote then py_strip squote tg
                         else tg), s)"
proof -
  define t' where "t' = PStr (if hd tg = dquote \<and> last tg = dquote then py_strip dquote tg
                         else if hd tg = squote \<and> last tg = squote then py_strip squote tg
                         else tg)"
  have sq: "strip_quotes (PStr tg) = Inr t'"
    using assms(4) by (simp add: t'_def)
  obtain a1 unref st1 where id: "identify u a st = (a1, unref, st1)"
    by (cases "identify u a st") auto
  have ida: "aid a1 = (if aid a = ''fig:'' then ''fig:'' @ u (uuid_calls st) else aid a)"
    using id by (auto simp: identify_def split: if_splits)
  show ?thesis
    using process_figure_tagged [OF assms(1,2,3) sq id, of cap tgt rest fmt] ida
    by (simp add: update_section_counter fig0_def t'_def)
qed

text \<open>
  Claim C3, as the code has it. For a figure whose identifier matches the label pattern,
  with a section number and a non-empty \<open>tag\<close>: if the tag begins and ends with the
  straight double quote, every leading and trailing double quote is removed (\<open>strip\<close>,
  not one layer); otherwise, if it begins and ends with the straight single quote, every
  leading and trailing single quote is removed; otherwise the tag is kept whole, curly quotes
  included. The figure is tagged, and the table holds (stripped tag, current section) under
  the figure's identifier (the synthesized one for a bare \<open>fig:\<close>). A figure whose
  identifier does not match the label pattern is not tagged, whatever its \<open>tag\<close>
  attribute: it is unnumbered and the table stays as it was.
\<close>

theorem tag_saved:
  "(label_match (aid a) \<and> kvs a ''secno'' = Some s \<and> kvs a ''tag'' = Some (PStr tg) \<and>
      tg \<noteq> [] \<longrightarrow>
      (\<exists>f st'. process_figure u (Image (Some a) cap tgt # rest) fmt st = Inr (f, st') \<and>
         is_tagged f \<and> cursec st' = s \<and>
         references st' (if aid a = ''fig:'' then ''fig:'' @ u (uuid_calls st) else aid a) =
           Some (PStr (if hd tg = dquote \<and> last tg = dquote then py_strip dquote tg
                       else if hd tg = squote \<and> last tg = squote then py_strip squote tg
                       else tg), s))) \<and>
   (\<not> label_match (aid b) \<longrightarrow>
      (\<exists>f st'. process_figure u (Image (Some b) cap tgt # rest) fmt st = Inr (f, st') \<and>
         \<not> is_tagged f \<and> is_unnumbered f \<and> references st' = references st))"
proof (intro conjI impI)
  assume "label_match (aid a) \<and> kvs a ''secno'' = Some s \<and> kvs a ''tag'' = Some (PStr tg) \<and>
      tg \<noteq> []"
  then show "\<exists>f st'. process_figure u (Image (Some a) cap tgt # rest) fmt st = Inr (f, st') \<and>
         is_tagged f \<and> cursec st' = s \<and>
         references st' (if aid a = ''fig:'' then ''fig:'' @ u (uuid_calls st) else aid a) =
           Some (PStr (if hd tg = dquote \<and> last tg = dquote then py_strip dquote tg
                       else if hd tg = squote \<and> last tg = squote then py_strip squote tg
                       else tg), s)"
    using labelled_tag_stored [of a s tg u cap tgt rest fmt st] by blast
next
  assume "\<not> label_match (aid b)"
  then show "\<exists>f st'. process_figure u (Image (Some b) cap tgt # rest) fmt st = Inr (f, st') \<and>
         \<not> is_tagged f \<and> is_unnumbered f \<and> references st' = references st"
    by (simp add: process_figure_def fig0_def)
qed

text \<open>
  Claim C3 as stated fails: the tag \<open>""a""\<close> is stored as \<open>a\<close>, where one layer
  less would be \<open>"a"\<close>; a tag in curly quotes is stored with its quotes, where the
  claim has them stripped; and a figure with the identifier \<open>photo\<close> and the tag
  \<open>S1\<close> gets no entry at all.
\<close>

theorem strip_counterexample:
  "entries [''fig:a'']
     (walk_figures uuid_const ''docx'' [figure_para (tagged_attrs ''fig:a'' (PInt 0) two_layers)]
        (init_globals ''2.7'')) = Inr [Some (PStr ''a'', PInt 0)] \<and>
   spec_strip_one_layer two_layers = [dquote, CHR ''a'', dquote] \<and>
   entries [''fig:a'']
     (walk_figures uuid_const ''docx'' [figure_para (tagged_attrs ''fig:a'' (PInt 0) curly_quoted)]
        (init_globals ''2.7'')) = Inr [Some (PStr curly_quoted, PInt 0)] \<and>
   spec_strip_one_layer curly_quoted = ''a'' \<and>
   entries [''photo'']
     (walk_figures uuid_const ''docx'' [figure_para (tagged_attrs ''photo'' (PInt 0) ''S1'')]
        (init_globals ''2.7'')) = Inr [None]"
  by (simp add: run_defs two_layers_def curly_quoted_def spec_strip_one_layer_def quote_pairs_def
      ldquo_def rdquo_def lsquo_def rsquo_def)

theorem tag_saved_witness:
  "(\<exists>f st'. process_figure uuid_const
       [Image (Some (tagged_attrs ''fig:e'' (PInt 1) (dquote # ''S1'' @ [dquote]))) [] (''e.png'', ''fig:'')]
       ''html'' mid_section = Inr (f, st') \<and>
     is_tagged f \<and> cursec st' = PInt 1 \<and> references st' ''fig:e'' = Some (PStr ''S1'', PInt 1)) \<and>
   (\<exists>f st'. process_figure uuid_const
       [Image (Some (tagged_attrs ''photo'' (PInt 1) ''S1'')) [] (''e.png'', ''fig:'')]
       ''html'' mid_section = Inr (f, st') \<and>
     \<not> is_tagged f \<and> is_unnumbered f \<and> references st' = references mid_section)"
  using tag_saved [of "tagged_attrs ''fig:e'' (PInt 1) (dquote # ''S1'' @ [dquote])" "PInt 1"
      "dquote # ''S1'' @ [dquote]" uuid_const "[]" "(''e.png'', ''fig:'')" "[]" "''html''" mid_section
      "tagged_attrs ''photo'' (PInt 1) ''S1''"]
  by (simp add: tagged_attrs_def label_match_def startswith_def py_strip_def dquote_def)




section \<open>Anonymous figures\<close>




section \<open>Captions of tagged figures\<close>

lemma escape_spaces_append: "escape_spaces (xs @ ys) = escape_spaces xs @ escape_spaces ys"
  by (simp add: escape_spaces_def)

lemma dollar_delimited_shape:
  "dollar_delimited tg \<longleftrightarrow> (\<exists>mid. tg = CHR ''$'' # mid @ ''$'')"
proof
  assume d: "dollar_delimited tg"
  then obtain x xs where t: "tg = x # xs" and x: "x = CHR ''$''"
    by (cases tg) (auto simp: dollar_delimited_def)
  have "xs \<noteq> []" using d t by (auto simp: dollar_delimited_def)
  then have "xs = butlast xs @ [last xs]" by simp
  moreover have "last xs = CHR ''$''" using d t \<open>xs \<noteq> []\<close> by (simp add: dollar_delimited_def)
  ultimately have "tg = CHR ''$'' # butlast xs @ ''$''" using t x by simp
  then show "\<exists>mid. tg = CHR ''$'' # mid @ ''$''" by blast
next
  assume "\<exists>mid. tg = CHR ''$'' # mid @ ''$''"
  then show "dollar_delimited tg" by (auto simp: dollar_delimited_def)
qed

lemma code_test_dollar:
  "(startswith tg ''$'' \<and> endswith tg ''$'') \<longleftrightarrow> (dollar_delimited tg \<or> tg = ''$'')"
proof (cases tg)
  case Nil
  then show ?thesis by (simp add: startswith_def endswith_def dollar_delimited_def)
next
  case (Cons x xs)
  have e: "endswith tg ''$'' \<longleftrightarrow> last tg = CHR ''$''"
  proof -
    have "tg \<noteq> []" using Cons by simp
    then have "tg = butlast tg @ [last tg]" by simp
    moreover have "drop (length (butlast tg)) (butlast tg @ [last tg]) = [last tg]" by simp
    ultimately have "drop (length tg - 1) tg = [last tg]" by (simp add: length_butlast)
    then show ?thesis using Cons by (simp add: endswith_def)
  qed
  have s: "startswith tg ''$'' \<longleftrightarrow> x = CHR ''$''"
    using Cons by (simp add: startswith_def)
  show ?thesis
  proof (cases xs)
    case Nil
    then show ?thesis using Cons e s by (auto simp: dollar_delimited_def)
  next
    case (Cons y ys)
    then show ?thesis using \<open>tg = x # xs\<close> e s by (auto simp: dollar_delimited_def)
  qed
qed

lemma math_content:
  assumes "dollar_delimited tg"
  shows "slice_1_m1 (escape_spaces tg) = escape_spaces (between_markers tg)"
proof -
  obtain mid where t: "tg = CHR ''$'' # mid @ ''$''"
    using assms dollar_delimited_shape by blast
  have e: "escape_spaces tg = CHR ''$'' # escape_spaces mid @ ''$''"
    unfolding t by (simp add: escape_spaces_def)
  have "between_markers tg = mid" unfolding t by (simp add: between_markers_def butlast_append)
  then show ?thesis by (simp add: e slice_1_m1_def)
qed

lemma tag_els_spec:
  "tg \<noteq> ''$'' \<Longrightarrow>
     tag_els tg = (if dollar_delimited tg
                     then [Math (escape_spaces (between_markers tg)), Str '':'']
                     else [Str (tg @ '':'')])"
  using code_test_dollar [of tg] by (simp add: tag_els_def math_content)

text \<open>
  Claim C4, for every tag text but the single character \<open>$\<close>. In a format that is not
  TeX-like, for a figure that is not unnumbered and whose entry holds the tag text, the new
  caption is the caption name, a space, the tag elements, a space and the old caption (the
  prefix inside a span for the HTML family). The tag elements are an inline math element
  whose content is the text between the markers with every space escaped, followed by a
  \<open>:\<close> string, exactly when the text is delimited by a pair of \<open>$\<close> markers;
  otherwise they are the one string of the text followed by \<open>:\<close>.
\<close>

theorem tagged_caption:
  assumes "attrs f = Some a" and "caption f = Some cap0" and "\<not> is_unnumbered f"
    and "fmt \<notin> set tex_fmts" and "references st (aid a) = Some (PStr tg, sec)"
    and "tg \<noteq> ''$''"
  shows "adjust_caption fmt f (Image ia cap tgt # rest) st =
           Inr (Image ia
                  ((if fmt \<in> set html_fmts
                    then [RawInline ''html'' ''<span>'', Str (captionname st), Space]
                         @ (if dollar_delimited tg
                            then [Math (escape_spaces (between_markers tg)), Str '':'']
                            else [Str (tg @ '':'')])
                         @ [RawInline ''html'' ''</span>'']
                    else [Str (captionname st), Space]
                         @ (if dollar_delimited tg
                            then [Math (escape_spaces (between_markers tg)), Str '':'']
                            else [Str (tg @ '':'')]))
                   @ [Space] @ cap0) tgt # rest)"
  using assms(1-5) tag_els_spec [OF assms(6)]
  by (simp add: adjust_caption_def)

text \<open>
  Claim C4 as stated fails on the tag \<open>$\<close>: it is one marker, not a pair, and yet
  \<open>startswith('$')\<close> and \<open>endswith('$')\<close> both hold, so the caption gets an empty math
  element instead of the literal text.
\<close>

theorem lone_dollar_counterexample:
  "walk_captions (walk_figures uuid_const ''markdown''
       [figure_para (tagged_attrs ''fig:a'' (PInt 0) ''$'')] (init_globals ''2.7'')) =
     Inr [[Str ''Figure'', Space, Math [], Str '':'', Space, Str ''Caption'']] \<and>
   \<not> dollar_delimited ''$''"
  by (simp add: run_defs walk_captions_def dollar_delimited_def slice_1_m1_def escape_spaces_def)

theorem tagged_caption_witness:
  "adjust_caption ''html'' math_fig
       [Image (Some (tagged_attrs ''fig:e'' (PInt 0) ''$x y$'')) [Str ''Caption''] (''e.png'', ''fig:'')] math_state =
     Inr [Image (Some (tagged_attrs ''fig:e'' (PInt 0) ''$x y$''))
                     [RawInline ''html'' ''<span>'', Str ''Figure'', Space,
                      Math (CHR ''x'' # backslash # '' y''), Str '':'',
                      RawInline ''html'' ''</span>'', Space, Str ''Caption''] (''e.png'', ''fig:'')]"
  using tagged_caption [of math_fig "tagged_attrs ''fig:e'' (PInt 0) ''$x y$''" "[Str ''Caption'']"
      "''html''" math_state "''$x y$''" "PInt 0"
      "Some (tagged_attrs ''fig:e'' (PInt 0) ''$x y$'')" "[Str ''Caption'']" "(''e.png'', ''fig:'')" "[]"]
  by (simp add: math_fig_def math_state_def fig0_def tagged_attrs_def init_globals_def tex_fmts_def
      html_fmts_def dollar_delimited_def between_markers_def escape_spaces_def)

section \<open>Which nodes are figures\<close>

lemma is_figure_shape:
  "is_figure key value \<longleftrightarrow>
     (key = ''Para'' \<and>
      (\<exists>ia cap url title. value = [Image ia cap (url, title)] \<and> startswith title ''fig:''))"
proof (cases "value")
  case Nil
  then show ?thesis by (simp add: is_figure_def)
next
  case (Cons x xs)
  show ?thesis
  proof (cases xs)
    case Nil
    then show ?thesis using Cons
      by (cases x) (auto simp: is_figure_def)
  next
    case (Cons y ys)
    then show ?thesis using \<open>value = x # xs\<close> by (simp add: is_figure_def)
  qed
qed

text \<open>
  Claim C2, as the code has it. \<open>process_figures\<close> takes a node for a figure exactly when
  its key is \<open>Para\<close> and its content is exactly one image whose title (the second
  entry of the image's target) begins with \<open>fig:\<close>; the identifier plays no part in
  the test. Every other node is returned as it is, with \<open>None\<close> and the state
  untouched; a figure goes through \<open>_process_figure\<close>, \<open>_adjust_caption\<close> (when it has
  attributes) and \<open>_add_markup\<close>.
\<close>

theorem process_figures_classifies:
  "(is_figure key value \<longleftrightarrow>
     (key = ''Para'' \<and>
      (\<exists>ia cap url title. value = [Image ia cap (url, title)] \<and> startswith title ''fig:''))) \<and>
   (\<not> is_figure key value \<longrightarrow> process_figures u key value fmt st = Inr (None, value, st)) \<and>
   (is_figure key value \<longrightarrow>
      process_figures u key value fmt st =
        then_do (process_figure u value fmt st) (\<lambda>(f, st1).
        then_do (if attrs f \<noteq> None then adjust_caption fmt f value st1 else Inr value) (\<lambda>value'.
        then_do (add_markup fmt f value' st1) (\<lambda>(ret, st2). Inr (ret, value', st2)))))"
  using is_figure_shape [of key "value"]
  by (auto simp: process_figures_def then_do_def split: sum.splits prod.splits)

text \<open>
  Claim C2 as stated fails in both directions. A lone image whose identifier is
  \<open>fig:a\<close> and whose title is empty is figure-shaped in the claim's sense and is left
  alone; a lone image with identifier \<open>photo\<close> and title \<open>fig:\<close> is not, and is
  processed: for LaTeX the action returns three blocks and raises the flag for unnumbered
  figures.
\<close>

theorem title_not_identifier_counterexample:
  "spec_figure_shaped ''Para'' labelled_untitled \<and>
   process_figures uuid_const ''Para'' labelled_untitled ''latex'' (init_globals ''2.7'') =
     Inr (None, labelled_untitled, init_globals ''2.7'') \<and>
   \<not> spec_figure_shaped ''Para'' titled_unlabelled \<and>
   process_figures uuid_const ''Para'' titled_unlabelled ''latex'' (init_globals ''2.7'') =
     Inr (Some [RawBlock ''tex'' (backslash # ''begin{fignos:no-prefix-figure-caption}''),
                Para titled_unlabelled,
                RawBlock ''tex'' (backslash # ''end{fignos:no-prefix-figure-caption}'')],
          titled_unlabelled,
          (init_globals ''2.7'')\<lparr>has_unnumbered_figures := True\<rparr>)"
  by (simp add: run_defs spec_figure_shaped_def labelled_untitled_def titled_unlabelled_def)

theorem process_figures_classifies_witness:
  "is_figure ''Para'' titled_unlabelled \<and> \<not> is_figure ''Para'' labelled_untitled \<and>
   \<not> is_figure ''Header'' titled_unlabelled \<and>
   process_figures uuid_const ''Para'' labelled_untitled ''html'' mid_section =
     Inr (None, labelled_untitled, mid_section) \<and>
   process_figures uuid_const ''Para'' titled_unlabelled ''html'' mid_section =
     Inr (None, titled_unlabelled, mid_section\<lparr>has_unnumbered_figures := True\<rparr>)"
  using process_figures_classifies [of "''Para''" titled_unlabelled uuid_const "''html''" mid_section]
    process_figures_classifies [of "''Para''" labelled_untitled uuid_const "''html''" mid_section]
    process_figures_classifies [of "''Header''" titled_unlabelled uuid_const "''html''" mid_section]
  by (simp add: run_defs then_do_def labelled_untitled_def titled_unlabelled_def mid_section_def)

section \<open>Metadata options\<close>

lemma check_names_bad_index:
  "i < length names \<Longrightarrow> \<not> is_MStr (names ! i) \<Longrightarrow> \<exists>e. check_names names = Inl e"
  by (auto simp: check_names_def list_all_length)

lemma names_bad:
  assumes "\<not> name_shape v"
  shows "\<exists>e. then_do (assign_names v old) check_names = Inl e"
proof (cases "assign_names v old")
  case (Inl e)
  then show ?thesis by (simp add: then_do_def)
next
  case (Inr new)
  have "\<exists>e. check_names new = Inl e"
  proof (cases v)
    case (MStr s)
    then show ?thesis using assms by (simp add: name_shape_def)
  next
    case (MBool b)
    then have n: "new = (map MStr old)[0 := MBool b]" "old \<noteq> []"
      using Inr by (auto simp: assign_names_def split: if_splits)
    then have "0 < length new" "\<not> is_MStr (new ! 0)" by simp_all
    then show ?thesis by (rule check_names_bad_index)
  next
    case (MList l)
    then have "new = l" using Inr by (simp add: assign_names_def)
    then show ?thesis using assms MList by (auto simp: name_shape_def check_names_def)
  next
    case (MDict d)
    then have n: "new = (map MStr old)[0 := MDict d]" "old \<noteq> []"
      using Inr by (auto simp: assign_names_def split: if_splits)
    then have "0 < length new" "\<not> is_MStr (new ! 0)" by simp_all
    then show ?thesis by (rule check_names_bad_index)
  qed
  then show ?thesis using Inr by (simp add: then_do_def)
qed

lemma read_plusname_bad:
  assumes "map_of m ''fignos-plus-name'' = Some v" and "\<not> name_shape v"
  shows "\<exists>e. read_plusname m st = Inl e"
  using names_bad [OF assms(2), of "plusname st"] assms(1)
  by (auto simp: read_plusname_def then_do_def split: sum.splits)

lemma read_starname_bad:
  assumes "map_of m ''fignos-star-name'' = Some v" and "\<not> name_shape v"
  shows "\<exists>e. read_starname m st = Inl e"
  using names_bad [OF assms(2), of "starname st"] assms(1)
  by (auto simp: read_starname_def then_do_def split: sum.splits)

lemma then_do_Inr: "then_do r f = Inr y \<longleftrightarrow> (\<exists>x. r = Inr x \<and> f x = Inr y)"
  by (cases r) (simp_all add: then_do_def)

lemma then_do_fails: "(\<And>x. \<exists>e. f x = Inl e) \<Longrightarrow> \<exists>e. then_do r f = Inl e"
  by (cases r) (simp_all add: then_do_def)

lemma process_bad:
  assumes "(map_of m ''fignos-plus-name'' = Some v \<or> map_of m ''fignos-star-name'' = Some v)"
    and "\<not> name_shape v"
  shows "\<exists>e. process ext m st = Inl e"
proof -
  have tail: "\<exists>e. then_do (read_plusname m s)
           (\<lambda>st. then_do (read_starname m st) (\<lambda>st. read_numbersections ext m st)) = Inl e" for s
  proof (cases "map_of m ''fignos-plus-name'' = Some v")
    case True
    then obtain e where "read_plusname m s = Inl e" using read_plusname_bad assms(2) by blast
    then show ?thesis by (simp add: then_do_def)
  next
    case False
    then have sv: "map_of m ''fignos-star-name'' = Some v" using assms(1) by blast
    show ?thesis
    proof (rule then_do_fails)
      fix x
      obtain e where "read_starname m x = Inl e" using read_starname_bad [OF sv assms(2)] by blast
      then show "\<exists>e. then_do (read_starname m x) (\<lambda>st. read_numbersections ext m st) = Inl e"
        by (simp add: then_do_def)
    qed
  qed
  show ?thesis
    unfolding process_def
    by (intro then_do_fails tail)
qed

lemma main_process_fails: "process ext m (init_globals pv) = Inl e \<Longrightarrow> main ext fmt pv m blocks = Inl e"
  by (simp add: main_def then_do_def)

lemma read_warninglevel_frame:
  "read_warninglevel ext m st = Inr st' \<Longrightarrow> st' = st\<lparr>warninglevel := warninglevel st'\<rparr>"
  by (auto simp: read_warninglevel_def split: option.splits sum.splits)

lemma read_captionname_frame:
  "read_captionname m st = Inr st' \<Longrightarrow>
     st' = st\<lparr>captionname := captionname st', captionname_changed := captionname_changed st'\<rparr>"
  by (auto simp: read_captionname_def split: option.splits metaval.splits)

lemma read_cleveref_frame:
  "read_cleveref ext m st = Inr st' \<Longrightarrow> st' = st\<lparr>cleveref := cleveref st'\<rparr>"
  by (auto simp: read_cleveref_def split: option.splits sum.splits)

lemma read_capitalise_frame:
  "read_capitalise ext m st = Inr st' \<Longrightarrow> st' = st\<lparr>capitalise := capitalise st'\<rparr>"
  by (auto simp: read_capitalise_def split: option.splits sum.splits)

lemma read_numbersections_frame:
  "read_numbersections ext m st = Inr st' \<Longrightarrow> st' = st\<lparr>numbersections := numbersections st'\<rparr>"
  by (auto simp: read_numbersections_def split: option.splits sum.splits)

lemma read_plusname_frame:
  "read_plusname m st = Inr st' \<Longrightarrow>
     st' = st\<lparr>plusname := plusname st', plusname_changed := plusname_changed st',
               starname := starname st'\<rparr>"
  by (auto simp: read_plusname_def Let_def split: option.splits sum.splits if_splits)

lemma read_starname_frame:
  "read_starname m st = Inr st' \<Longrightarrow>
     st' = st\<lparr>starname := starname st', starname_changed := starname_changed st'\<rparr>"
  by (auto simp: read_starname_def split: option.splits sum.splits)

text \<open>The steps of \<open>process\<close>, and what reaches the two name options.\<close>

lemma process_steps:
  assumes "process ext m st = Inr st'"
  shows "\<exists>s1 s2 s3.
           plusname s1 = plusname st \<and> starname s1 = starname st \<and>
           (captionname s1 = captionname st \<or>
              map_of m ''fignos-caption-name'' = Some (MStr (captionname s1))) \<and>
           (\<forall>n. map_of m ''fignos-caption-name'' = Some (MStr n) \<longrightarrow> captionname s1 = n) \<and>
           read_plusname m s1 = Inr s2 \<and> read_starname m s2 = Inr s3 \<and>
           st' = s3\<lparr>numbersections := numbersections st'\<rparr>"
proof -
  from assms obtain a b c d e f where
    a: "read_warninglevel ext m st = Inr a" and
    b: "read_captionname m a = Inr b" and
    c: "read_cleveref ext m b = Inr c" and
    d: "read_capitalise ext m c = Inr d" and
    e: "read_plusname m d = Inr e" and
    f: "read_starname m e = Inr f" and
    g: "read_numbersections ext m f = Inr st'"
    unfolding process_def then_do_Inr by blast
  note fa = read_warninglevel_frame [OF a]
  note fb = read_captionname_frame [OF b]
  note fc = read_cleveref_frame [OF c]
  note fd = read_capitalise_frame [OF d]
  have p: "plusname d = plusname st" "starname d = starname st"
    by (subst fd, subst fc, subst fb, subst fa, simp)+
  have cd: "captionname d = captionname b"
    by (subst fd, subst fc, simp)
  have ca: "captionname a = captionname st"
    by (subst fa, simp)
  have cb: "captionname b = captionname a \<or> map_of m ''fignos-caption-name'' = Some (MStr (captionname b))"
    using b by (auto simp: read_captionname_def split: option.splits metaval.splits)
  have cn: "\<forall>n. map_of m ''fignos-caption-name'' = Some (MStr n) \<longrightarrow> captionname b = n"
    using b by (auto simp: read_captionname_def split: option.splits metaval.splits)
  show ?thesis
    using p cd ca cb cn e f read_numbersections_frame [OF g] by metis
qed


lemma succeeds_Inr: "succeeds r \<longleftrightarrow> (\<exists>x. r = Inr x)"
  by (cases r) (simp_all add: succeeds_def)

lemma read_warninglevel_ok:
  "shaped (first_in_meta m [''fignos-warning-level'', ''xnos-warning-level''])
     (\<lambda>v. succeeds (py_int ext v)) \<Longrightarrow> succeeds (read_warninglevel ext m st)"
  by (auto simp: shaped_def read_warninglevel_def succeeds_def split: option.splits sum.splits)

lemma read_captionname_ok:
  "shaped (map_of m ''fignos-caption-name'') is_MStr \<Longrightarrow> succeeds (read_captionname m st)"
  by (auto simp: shaped_def read_captionname_def succeeds_def split: option.splits metaval.splits)

lemma read_cleveref_ok:
  "shaped (first_in_meta m [''fignos-cleveref'', ''xnos-cleveref''])
     (\<lambda>v. succeeds (check_bool ext v)) \<Longrightarrow> succeeds (read_cleveref ext m st)"
  by (auto simp: shaped_def read_cleveref_def succeeds_def split: option.splits sum.splits)

lemma read_capitalise_ok:
  "shaped (first_in_meta m [''xnos-capitalise'', ''xnos-capitalize''])
     (\<lambda>v. succeeds (check_bool ext v)) \<Longrightarrow> succeeds (read_capitalise ext m st)"
  by (auto simp: shaped_def read_capitalise_def succeeds_def split: option.splits sum.splits)

lemma read_numbersections_ok:
  "shaped (first_in_meta m [''fignos-number-sections'', ''xnos-number-sections''])
     (\<lambda>v. succeeds (check_bool ext v)) \<Longrightarrow> succeeds (read_numbersections ext m st)"
  by (auto simp: shaped_def read_numbersections_def succeeds_def split: option.splits sum.splits)

lemma names_ok:
  assumes "name_shape v" and "length old = 2"
  shows "\<exists>new names. assign_names v old = Inr new \<and> check_names new = Inr names \<and>
           length names = 2"
proof (cases v)
  case (MStr s)
  obtain p q where old: "old = [p, q]"
    using assms(2) by (cases old; cases "tl old") auto
  have "assign_names v old = Inr [MStr s, MStr q]"
    using MStr old by (simp add: assign_names_def)
  moreover have "check_names [MStr s, MStr q] = Inr [s, q]"
    by (simp add: check_names_def)
  ultimately show ?thesis by simp
next
  case (MBool b)
  then show ?thesis using assms(1) by (simp add: name_shape_def)
next
  case (MList l)
  then have l: "length l = 2" "list_all is_MStr l" using assms(1) by (simp_all add: name_shape_def)
  have "assign_names v old = Inr l" using MList by (simp add: assign_names_def)
  moreover have "check_names l = Inr (map the_MStr l)" using l by (simp add: check_names_def)
  ultimately show ?thesis using l by simp
next
  case (MDict d)
  then show ?thesis using assms(1) by (simp add: name_shape_def)
qed

lemma read_plusname_ok:
  assumes "shaped (map_of m ''fignos-plus-name'') name_shape"
    and "length (plusname st) = 2" and "length (starname st) = 2"
  shows "\<exists>st'. read_plusname m st = Inr st' \<and> length (plusname st') = 2 \<and>
           length (starname st') = 2"
proof (cases "map_of m ''fignos-plus-name''")
  case None
  then show ?thesis using assms(2,3) by (simp add: read_plusname_def)
next
  case (Some v)
  then have "name_shape v" using assms(1) by (simp add: shaped_def)
  then obtain new names where "assign_names v (plusname st) = Inr new"
    "check_names new = Inr names" "length names = 2"
    using names_ok [OF _ assms(2)] by blast
  then show ?thesis using Some assms(3) by (simp add: read_plusname_def Let_def)
qed

lemma read_starname_ok:
  assumes "shaped (map_of m ''fignos-star-name'') name_shape" and "length (starname st) = 2"
  shows "succeeds (read_starname m st)"
proof (cases "map_of m ''fignos-star-name''")
  case None
  then show ?thesis by (simp add: read_starname_def succeeds_def)
next
  case (Some v)
  then have "name_shape v" using assms(1) by (simp add: shaped_def)
  then obtain new names where "assign_names v (starname st) = Inr new"
    "check_names new = Inr names"
    using names_ok [OF _ assms(2)] by blast
  then show ?thesis using Some by (simp add: read_starname_def succeeds_def)
qed

lemma process_ok:
  assumes "well_shaped ext m"
  shows "\<exists>st. process ext m (init_globals pv) = Inr st"
proof -
  obtain a where a: "read_warninglevel ext m (init_globals pv) = Inr a"
    using assms read_warninglevel_ok unfolding well_shaped_def succeeds_Inr by blast
  obtain b where b: "read_captionname m a = Inr b"
    using assms read_captionname_ok unfolding well_shaped_def succeeds_Inr by blast
  obtain c where c: "read_cleveref ext m b = Inr c"
    using assms read_cleveref_ok unfolding well_shaped_def succeeds_Inr by blast
  obtain d where d: "read_capitalise ext m c = Inr d"
    using assms read_capitalise_ok unfolding well_shaped_def succeeds_Inr by blast
  note fa = read_warninglevel_frame [OF a]
  note fb = read_captionname_frame [OF b]
  note fc = read_cleveref_frame [OF c]
  note fd = read_capitalise_frame [OF d]
  have "plusname d = plusname (init_globals pv)" "starname d = starname (init_globals pv)"
    by (subst fd, subst fc, subst fb, subst fa, simp)+
  then have len: "length (plusname d) = 2" "length (starname d) = 2"
    by (simp_all add: init_globals_def)
  have sp: "shaped (map_of m ''fignos-plus-name'') name_shape"
    and ss: "shaped (map_of m ''fignos-star-name'') name_shape"
    using assms by (simp_all add: well_shaped_def)
  obtain e where e: "read_plusname m d = Inr e" "length (starname e) = 2"
    using read_plusname_ok [OF sp len] by blast
  obtain f where f: "read_starname m e = Inr f"
    using read_starname_ok [OF ss e(2)] unfolding succeeds_Inr by blast
  obtain g where g: "read_numbersections ext m f = Inr g"
    using assms read_numbersections_ok unfolding well_shaped_def succeeds_Inr by blast
  have "process ext m (init_globals pv) = Inr g"
    using a b c d e(1) f g by (simp add: process_def then_do_def)
  then show ?thesis by blast
qed

text \<open>
  Claim C5. If the mid-sentence or the sentence-initial name option is present and is
  neither a string nor a list of exactly two strings, \<open>process\<close> raises, and \<open>main\<close>
  raises the same error whatever the blocks are, since it calls \<open>process\<close> before the
  first walk. On a well-shaped configuration \<open>process\<close> returns a state.
\<close>

theorem name_option_shape:
  "((map_of m ''fignos-plus-name'' = Some v \<or> map_of m ''fignos-star-name'' = Some v) \<and>
      \<not> name_shape v \<longrightarrow>
      (\<exists>e. process ext m (init_globals pv) = Inl e \<and> main ext fmt pv m blocks = Inl e)) \<and>
   (well_shaped ext m' \<longrightarrow> (\<exists>st. process ext m' (init_globals pv) = Inr st))"
proof (intro conjI impI)
  assume h: "(map_of m ''fignos-plus-name'' = Some v \<or> map_of m ''fignos-star-name'' = Some v) \<and>
      \<not> name_shape v"
  then obtain e where e: "process ext m (init_globals pv) = Inl e"
    using process_bad [of m v ext "init_globals pv"] by blast
  then have "main ext fmt pv m blocks = Inl e" by (rule main_process_fails)
  with e show "\<exists>e. process ext m (init_globals pv) = Inl e \<and> main ext fmt pv m blocks = Inl e"
    by blast
next
  assume "well_shaped ext m'"
  then show "\<exists>st. process ext m' (init_globals pv) = Inr st" by (rule process_ok)
qed

theorem name_option_shape_witness:
  "(\<exists>e. process ext0 bad_meta (init_globals ''2.7'') = Inl e \<and>
        main ext0 ''html'' ''2.7'' bad_meta scenario_A = Inl e) \<and>
   (\<exists>st. process ext0 good_meta (init_globals ''2.7'') = Inr st)"
  using name_option_shape [of bad_meta "MList [MStr ''fig.'']" ext0 "''2.7''" "''html''" scenario_A
      good_meta]
  by (simp add: bad_meta_def good_meta_def name_shape_def well_shaped_def shaped_def ext0_def
      succeeds_def)










section \<open>Header includes\<close>

lemma startswith_Nil: "startswith s [] = True"
  by (simp add: startswith_def)

lemma startswith_Cons: "startswith (c # s) (d # p) = (c = d \<and> startswith s p)"
  by (auto simp: startswith_def)

lemma startswith_Nil_Cons: "startswith [] (d # p) = False"
  by (simp add: startswith_def)

lemmas startswith_simps = startswith_Nil startswith_Cons startswith_Nil_Cons

lemma CAPTION_NAME_TEX_text:
  "CAPTION_NAME_TEX name =
     newline # ''% pandoc-fignos: change the caption name'' @
     newline # backslash # ''renewcommand{'' @ backslash # ''figurename}{'' @ name @
     ''}'' @ [newline]"
  by (simp add: CAPTION_NAME_TEX_def)

lemma caption_directive_is: "is_caption_name_directive (CAPTION_NAME_TEX name)"
  by (simp add: is_caption_name_directive_def caption_name_marker_def CAPTION_NAME_TEX_def
      startswith_simps)

lemma other_directives_are_not:
  "\<not> is_caption_name_directive (cleveref_tex opt)"
  "\<not> is_caption_name_directive caption_package_tex"
  "\<not> is_caption_name_directive (crefname_tex a b)"
  "\<not> is_caption_name_directive (Crefname_tex a b)"
  "\<not> is_caption_name_directive NO_PREFIX_CAPTION_ENV_TEX"
  "\<not> is_caption_name_directive TAGGED_FIGURE_ENV_TEX"
  "\<not> is_caption_name_directive NUMBER_BY_SECTION_TEX"
  by (simp_all add: is_caption_name_directive_def caption_name_marker_def cleveref_tex_def
      caption_package_tex_def crefname_tex_def Crefname_tex_def NO_PREFIX_CAPTION_ENV_TEX_def
      TAGGED_FIGURE_ENV_TEX_def NUMBER_BY_SECTION_TEX_def startswith_simps newline_def)

text \<open>The optional name directives are never caption-name directives.\<close>

lemma crefname_calls_no_caption:
  "crefname_calls st = Inr cs \<Longrightarrow> filter is_caption_name_directive (map fst cs) = []"
  by (auto simp: crefname_calls_def then_do_Inr other_directives_are_not split: if_splits)

lemma Crefname_calls_no_caption:
  "Crefname_calls st = Inr cs \<Longrightarrow> filter is_caption_name_directive (map fst cs) = []"
  by (auto simp: Crefname_calls_def then_do_Inr other_directives_are_not split: if_splits)

lemma add_tex_calls_caption:
  assumes "add_tex_calls cr st = Inr calls" and "captionname st \<noteq> ''Figure''"
  shows "filter is_caption_name_directive (map fst calls) = [CAPTION_NAME_TEX (captionname st)] \<and>
         (CAPTION_NAME_TEX (captionname st), None) \<in> set calls"
proof -
  from assms(1) obtain crefs Crefs where
    p: "crefname_calls st = Inr crefs" and
    s: "Crefname_calls st = Inr Crefs" and
    c: "calls =
          (if cr then [(cleveref_tex (if capitalise st then ''[capitalise]'' else []),
                        Some cleveref_regex)] else [])
          @ (if has_unnumbered_figures st then [(caption_package_tex, Some caption_regex)] else [])
          @ crefs
          @ Crefs
          @ (if has_unnumbered_figures st then [(NO_PREFIX_CAPTION_ENV_TEX, None)] else [])
          @ (if has_tagged_figures st then [(TAGGED_FIGURE_ENV_TEX, None)] else [])
          @ (if captionname st \<noteq> ''Figure''
             then [(CAPTION_NAME_TEX (captionname st), None)] else [])
          @ (if numbersections st then [(NUMBER_BY_SECTION_TEX, None)] else [])"
    unfolding add_tex_calls_def then_do_Inr by auto
  have fp: "filter is_caption_name_directive (map fst crefs) = []"
    using p by (rule crefname_calls_no_caption)
  have fs: "filter is_caption_name_directive (map fst Crefs) = []"
    using s by (rule Crefname_calls_no_caption)
  show ?thesis
    unfolding c using assms(2) fp fs
    by (simp add: other_directives_are_not caption_directive_is)
qed

text \<open>The first pass leaves the caption name alone.\<close>

lemma process_figure_captionname:
  "process_figure u v fmt st = Inr (f, st') \<Longrightarrow> captionname st' = captionname st"
  by (auto simp: process_figure_def identify_def update_section_def number_by_section_def
      save_reference_def Let_def
      split: list.splits inline.splits option.splits if_splits sum.splits prod.splits)

lemma add_markup_captionname:
  "add_markup fmt f v st = Inr (ret, st') \<Longrightarrow> captionname st' = captionname st"
  by (auto simp: add_markup_def split: if_splits option.splits prod.splits)

lemma process_figures_captionname:
  assumes "process_figures u key v fmt st = Inr (ret, v', st')"
  shows "captionname st' = captionname st"
proof (cases "is_figure key v")
  case False
  then show ?thesis using assms by (simp add: process_figures_def)
next
  case True
  then obtain f st1 v1 where
    pf: "process_figure u v fmt st = Inr (f, st1)" and
    am: "add_markup fmt f v1 st1 = Inr (ret, st')"
    using assms by (auto simp: process_figures_def split: sum.splits prod.splits)
  show ?thesis
    using process_figure_captionname [OF pf] add_markup_captionname [OF am] by simp
qed

lemma walk_figures_captionname:
  "walk_figures u fmt bs st = Inr (bs', st') \<Longrightarrow> captionname st' = captionname st"
proof (induction u fmt bs st arbitrary: bs' st' rule: walk_figures.induct)
  case (1 uuid4 fmt st)
  then show ?case by simp
next
  case (2 uuid4 fmt v bs st)
  from "2.prems" obtain ret v' st1 bs1 where
    a: "process_figures uuid4 ''Para'' v fmt st = Inr (ret, v', st1)" and
    b: "walk_figures uuid4 fmt bs st1 = Inr (bs1, st')"
    by (auto split: sum.splits prod.splits)
  have "captionname st' = captionname st1"
    using "2.IH" [of "(ret, v', st1)" ret "(v', st1)" v' st1 bs1 st'] a b by simp
  then show ?case using process_figures_captionname [OF a] by simp
next
  case (3 uuid4 fmt cs bs st)
  from "3.prems" obtain cs1 st1 bs1 where
    a: "walk_figures uuid4 fmt cs st = Inr (cs1, st1)" and
    b: "walk_figures uuid4 fmt bs st1 = Inr (bs1, st')"
    by (auto split: sum.splits prod.splits)
  have "captionname st1 = captionname st" using "3.IH"(1) [OF a] .
  moreover have "captionname st' = captionname st1"
    using "3.IH"(2) [of "(cs1, st1)" cs1 st1 bs1 st'] a b by simp
  ultimately show ?case by simp
qed (auto split: sum.splits prod.splits)

text \<open>What a successful run of \<open>main\<close> went through.\<close>

lemma main_steps:
  assumes "main ext fmt pv m blocks = Inr (m', b')"
  shows "\<exists>st1 b1 b2 st2 cr.
           process ext m (init_globals pv) = Inr st1 \<and>
           walk_figures (uuid4 ext) fmt b1 st1 = Inr (b2, st2) \<and>
           (if fmt \<in> set tex_fmts then add_tex ext cr m st2 else Inr m) = Inr m'"
proof -
  from assms obtain st1 where p: "process ext m (init_globals pv) = Inr st1" and
    r1: "then_do (attach_and_insert_secnos ext st1 fmt m blocks) (\<lambda>b1.
         then_do (walk_figures (uuid4 ext) fmt b1 st1) (\<lambda>(b2, st2).
         then_do (delete_secnos_and_detach ext st2 fmt m b2) (\<lambda>b3.
         then_do (second_pass ext st2 fmt m b3) (\<lambda>(b4, cr).
         then_do (if fmt \<in> set tex_fmts then add_tex ext cr m st2 else Inr m) (\<lambda>m'.
         Inr (m', b4)))))) = Inr (m', b')"
    unfolding main_def by (subst (asm) then_do_Inr) blast
  from r1 obtain b1 where
    r2: "then_do (walk_figures (uuid4 ext) fmt b1 st1) (\<lambda>(b2, st2).
         then_do (delete_secnos_and_detach ext st2 fmt m b2) (\<lambda>b3.
         then_do (second_pass ext st2 fmt m b3) (\<lambda>(b4, cr).
         then_do (if fmt \<in> set tex_fmts then add_tex ext cr m st2 else Inr m) (\<lambda>m'.
         Inr (m', b4))))) = Inr (m', b')"
    by (subst (asm) then_do_Inr) blast
  from r2 obtain w where w: "walk_figures (uuid4 ext) fmt b1 st1 = Inr w" and
    r3: "(case w of (b2, st2) \<Rightarrow>
         then_do (delete_secnos_and_detach ext st2 fmt m b2) (\<lambda>b3.
         then_do (second_pass ext st2 fmt m b3) (\<lambda>(b4, cr).
         then_do (if fmt \<in> set tex_fmts then add_tex ext cr m st2 else Inr m) (\<lambda>m'.
         Inr (m', b4))))) = Inr (m', b')"
    by (subst (asm) then_do_Inr) blast
  obtain b2 st2 where wp: "w = (b2, st2)" by (cases w) auto
  from r3 wp obtain b3 where
    r4: "then_do (second_pass ext st2 fmt m b3) (\<lambda>(b4, cr).
         then_do (if fmt \<in> set tex_fmts then add_tex ext cr m st2 else Inr m) (\<lambda>m'.
         Inr (m', b4))) = Inr (m', b')"
    by (simp add: then_do_Inr) blast
  from r4 obtain sp where
    r5: "(case sp of (b4, cr) \<Rightarrow>
         then_do (if fmt \<in> set tex_fmts then add_tex ext cr m st2 else Inr m) (\<lambda>m'.
         Inr (m', b4))) = Inr (m', b')"
    by (subst (asm) then_do_Inr) blast
  obtain b4 cr where spp: "sp = (b4, cr)" by (cases sp) auto
  from r5 spp have
    "(if fmt \<in> set tex_fmts then add_tex ext cr m st2 else Inr m) = Inr m'"
    by (auto simp: then_do_Inr)
  with p w wp show ?thesis by blast
qed

text \<open>
  Claim C6. For a format that is not \<open>latex\<close> or \<open>beamer\<close> the metadata that \<open>main\<close>
  writes out is the metadata it was given. For a TeX-like format with the caption name set
  to something other than \<open>Figure\<close>, the metadata written out is the given one after the
  calls of \<open>add_tex_to_header_includes\<close> that \<open>add_tex\<close> makes, and among the texts of
  those calls exactly one is a caption-name override directive: the comment line followed by
  \<open>\renewcommand{\figurename}{name}\<close> for the name set, passed without a pattern.
\<close>

theorem header_includes_frame:
  "(fmt \<notin> set tex_fmts \<and> main ext fmt pv m blocks = Inr (m', b') \<longrightarrow> m' = m) \<and>
   (fmt \<in> set tex_fmts \<and> map_of m ''fignos-caption-name'' = Some (MStr name) \<and>
      name \<noteq> ''Figure'' \<and> main ext fmt pv m blocks = Inr (m', b') \<longrightarrow>
      (\<exists>calls wl.
          m' = foldl (\<lambda>m1 (tex, regex). add_tex_to_header_includes ext m1 tex wl regex) m calls \<and>
          filter is_caption_name_directive (map fst calls) =
            [newline # ''% pandoc-fignos: change the caption name'' @
             newline # backslash # ''renewcommand{'' @ backslash # ''figurename}{'' @ name @
             ''}'' @ [newline]] \<and>
          (newline # ''% pandoc-fignos: change the caption name'' @
           newline # backslash # ''renewcommand{'' @ backslash # ''figurename}{'' @ name @
           ''}'' @ [newline], None) \<in> set calls))"
proof (intro conjI impI)
  assume h: "fmt \<notin> set tex_fmts \<and> main ext fmt pv m blocks = Inr (m', b')"
  then show "m' = m" using main_steps [of ext fmt pv m blocks m' b'] by auto
next
  assume h: "fmt \<in> set tex_fmts \<and> map_of m ''fignos-caption-name'' = Some (MStr name) \<and>
      name \<noteq> ''Figure'' \<and> main ext fmt pv m blocks = Inr (m', b')"
  then obtain st1 b1 b2 st2 cr where
    p: "process ext m (init_globals pv) = Inr st1" and
    w: "walk_figures (uuid4 ext) fmt b1 st1 = Inr (b2, st2)" and
    a: "add_tex ext cr m st2 = Inr m'"
    using main_steps [of ext fmt pv m blocks m' b'] by auto
  obtain s1 s2 s3 where
    c1: "\<forall>n. map_of m ''fignos-caption-name'' = Some (MStr n) \<longrightarrow> captionname s1 = n" and
    rp: "read_plusname m s1 = Inr s2" and rs: "read_starname m s2 = Inr s3" and
    fin: "st1 = s3\<lparr>numbersections := numbersections st1\<rparr>"
    using process_steps [OF p] by blast
  have "captionname s2 = captionname s1"
    by (subst read_plusname_frame [OF rp], simp)
  moreover have "captionname s3 = captionname s2"
    by (subst read_starname_frame [OF rs], simp)
  moreover have "captionname st1 = captionname s3"
    by (subst fin, simp)
  ultimately have "captionname st1 = name" using c1 h by simp
  then have cn: "captionname st2 = name"
    using walk_figures_captionname [OF w] by simp
  obtain calls where
    ac: "add_tex_calls cr st2 = Inr calls" and
    fm: "m' = foldl (\<lambda>m1 (tex, regex).
                 add_tex_to_header_includes ext m1 tex (warninglevel st2) regex) m calls"
    using a unfolding add_tex_def then_do_Inr by auto
  have "filter is_caption_name_directive (map fst calls) = [CAPTION_NAME_TEX name] \<and>
        (CAPTION_NAME_TEX name, None) \<in> set calls"
    using add_tex_calls_caption [OF ac] cn h by simp
  then have "filter is_caption_name_directive (map fst calls) =
            [newline # ''% pandoc-fignos: change the caption name'' @
             newline # backslash # ''renewcommand{'' @ backslash # ''figurename}{'' @ name @
             ''}'' @ [newline]] \<and>
          (newline # ''% pandoc-fignos: change the caption name'' @
           newline # backslash # ''renewcommand{'' @ backslash # ''figurename}{'' @ name @
           ''}'' @ [newline], None) \<in> set calls"
    unfolding CAPTION_NAME_TEX_text .
  then show "\<exists>calls wl.
          m' = foldl (\<lambda>m1 (tex, regex). add_tex_to_header_includes ext m1 tex wl regex) m calls \<and>
          filter is_caption_name_directive (map fst calls) =
            [newline # ''% pandoc-fignos: change the caption name'' @
             newline # backslash # ''renewcommand{'' @ backslash # ''figurename}{'' @ name @
             ''}'' @ [newline]] \<and>
          (newline # ''% pandoc-fignos: change the caption name'' @
           newline # backslash # ''renewcommand{'' @ backslash # ''figurename}{'' @ name @
           ''}'' @ [newline], None) \<in> set calls"
    using fm by blast
qed

lemmas meta_defs = process_def then_do_def read_warninglevel_def read_captionname_def
  read_cleveref_def read_capitalise_def read_plusname_def read_starname_def
  read_numbersections_def assign_names_def check_names_def ext0_def Let_def

lemma main_html_runs:
  "\<exists>m' b'. main ext0 ''html'' ''2.7'' good_meta scenario_A = Inr (m', b')"
  by (simp add: main_def meta_defs run_defs good_meta_def scenario_A_def)

text \<open>The metadata of a LaTeX run that sets the caption name: one header block is added.\<close>

lemma main_latex_runs:
  "\<exists>b'. main ext0 ''latex'' ''2.7'' caption_meta scenario_A =
     Inr ((''header-includes'',
           MStr (newline # ''% pandoc-fignos: change the caption name'' @
                 newline # backslash # ''renewcommand{'' @ backslash # ''figurename}{Fig.}'' @
                 [newline])) # caption_meta, b')"
  by (simp add: main_def meta_defs run_defs caption_meta_def scenario_A_def add_tex_def
      add_tex_calls_def crefname_calls_def Crefname_calls_def name_pair_def CAPTION_NAME_TEX_def)

theorem header_includes_frame_witness:
  "(\<exists>b'. main ext0 ''html'' ''2.7'' good_meta scenario_A = Inr (good_meta, b')) \<and>
   (\<exists>b' calls wl.
      main ext0 ''latex'' ''2.7'' caption_meta scenario_A =
        Inr ((''header-includes'',
              MStr (newline # ''% pandoc-fignos: change the caption name'' @
                    newline # backslash # ''renewcommand{'' @ backslash # ''figurename}{Fig.}'' @
                    [newline])) # caption_meta, b') \<and>
      (''header-includes'',
       MStr (newline # ''% pandoc-fignos: change the caption name'' @
             newline # backslash # ''renewcommand{'' @ backslash # ''figurename}{Fig.}'' @
             [newline])) # caption_meta =
        foldl (\<lambda>m1 (tex, regex). add_tex_to_header_includes ext0 m1 tex wl regex)
          caption_meta calls \<and>
      filter is_caption_name_directive (map fst calls) =
        [newline # ''% pandoc-fignos: change the caption name'' @
         newline # backslash # ''renewcommand{'' @ backslash # ''figurename}{Fig.}'' @ [newline]])"
proof -
  obtain m0 b0 where h: "main ext0 ''html'' ''2.7'' good_meta scenario_A = Inr (m0, b0)"
    using main_html_runs by blast
  have "m0 = good_meta"
    using header_includes_frame [of "''html''" ext0 "''2.7''" good_meta scenario_A m0 b0] h
    by (simp add: tex_fmts_def)
  then have first: "\<exists>b'. main ext0 ''html'' ''2.7'' good_meta scenario_A = Inr (good_meta, b')"
    using h by blast
  define hdr where "hdr = (''header-includes'',
           MStr (newline # ''% pandoc-fignos: change the caption name'' @
                 newline # backslash # ''renewcommand{'' @ backslash # ''figurename}{Fig.}'' @
                 [newline])) # caption_meta"
  obtain b' where l: "main ext0 ''latex'' ''2.7'' caption_meta scenario_A = Inr (hdr, b')"
    using main_latex_runs unfolding hdr_def by blast
  have "\<exists>calls wl.
      hdr = foldl (\<lambda>m1 (tex, regex). add_tex_to_header_includes ext0 m1 tex wl regex)
             caption_meta calls \<and>
      filter is_caption_name_directive (map fst calls) =
        [newline # ''% pandoc-fignos: change the caption name'' @
         newline # backslash # ''renewcommand{'' @ backslash # ''figurename}{Fig.}'' @ [newline]]"
    using header_includes_frame [of "''latex''" ext0 "''2.7''" caption_meta scenario_A hdr b'
        "''Fig.''"] l
    by (simp add: tex_fmts_def caption_meta_def) blast
  then show ?thesis using l first unfolding hdr_def by blast
qed

end
